theory Spec2Isabelle
  imports Complex_Main
begin

section \<open>Numbers and small helpers of \<open>Watchface.tsx\<close>\<close>

text \<open>
  A JavaScript \<open>number\<close> is modelled as a real number: arithmetic is exact, and the
  rounding error of IEEE doubles, \<open>NaN\<close> and the infinities are outside the model.
  \<open>Math.round\<close> rounds to the nearest integer, halves upwards.
\<close>

definition Math_round :: "real \<Rightarrow> real" where
  "Math_round x = of_int \<lfloor>x + 1 / 2\<rfloor>"

text \<open>\<open>clamp(value, min, max) = Math.min(max, Math.max(min, value))\<close>\<close>

definition clamp :: "real \<Rightarrow> real \<Rightarrow> real \<Rightarrow> real" where
  "clamp v mn mx = min mx (max mn v)"

section \<open>The simulated battery\<close>

text \<open>
  The two keys of \<open>localStorage\<close> the hook reads and writes. A key that is absent (or
  holds the empty string, which the source treats alike) is \<open>None\<close>; a present key is
  kept as the number \<open>parseFloat\<close> resp. \<open>parseInt\<close> reads from it.
\<close>

record storage =
  batteryPercent :: "real option"
  batteryUpdatedAt :: "int option"

text \<open>
  The initialiser of the state (lines 42-52). \<open>window\<close> tells whether the code runs in a
  browser, \<open>now\<close> is the reading of \<open>Date.now()\<close> in milliseconds and \<open>rnd\<close> the value
  of \<open>Math.random()\<close>.
\<close>

definition useSimulatedBattery_init :: "bool \<Rightarrow> storage \<Rightarrow> int \<Rightarrow> real \<Rightarrow> real" where
  "useSimulatedBattery_init window st now rnd =
     (if \<not> window then 75
      else
        let baseline = (case batteryPercent st of
                          Some v \<Rightarrow> v
                        | None \<Rightarrow> Math_round (60 + rnd * 40));
            last = (case batteryUpdatedAt st of Some u \<Rightarrow> u | None \<Rightarrow> now);
            minutesSince = real_of_int (now - last) / 60000;
            drained = max 0 (baseline - minutesSince * 0.04)
        in Math_round (drained * 10) / 10)"

text \<open>The hook's state together with the store it persists to.\<close>

record battery_state =
  battery :: real
  store :: storage

text \<open>
  One run of the interval callback (lines 57-62) at clock reading \<open>now\<close>: the value is
  drained and clamped, and the new value and the time are persisted.
\<close>

definition useSimulatedBattery_tick :: "battery_state \<Rightarrow> int \<Rightarrow> battery_state" where
  "useSimulatedBattery_tick s now =
     (let next = clamp (battery s - 0.0007) 0 100
      in \<lparr>battery = next,
          store = (store s)\<lparr>batteryPercent := Some next, batteryUpdatedAt := Some now\<rparr>\<rparr>)"

text \<open>
  A session: the initial state, then one callback per clock reading of \<open>ticks\<close>. Without
  a \<open>window\<close> the effect returns before it installs the interval, so nothing changes.
\<close>

definition useSimulatedBattery_start :: "bool \<Rightarrow> storage \<Rightarrow> int \<Rightarrow> real \<Rightarrow> battery_state" where
  "useSimulatedBattery_start window st now rnd =
     \<lparr>battery = useSimulatedBattery_init window st now rnd, store = st\<rparr>"

definition useSimulatedBattery_run :: "bool \<Rightarrow> battery_state \<Rightarrow> int list \<Rightarrow> battery_state" where
  "useSimulatedBattery_run window s ticks =
     (if \<not> window then s else foldl useSimulatedBattery_tick s ticks)"

section \<open>Dates\<close>

text \<open>
  A \<open>Date\<close> that holds a time is its time value, the milliseconds since the epoch.
  Its local fields depend on the time zone of the host, which belongs to the platform
  and is a parameter here. As in the language specification, a host zone is two
  functions: the offset from UTC in force at an instant, by which an instant is shown
  as local time, and the offset by which a local time value is read back as an instant
  (for a local time that the clock skips or shows twice, the platform picks one). Both
  are in milliseconds, east of UTC.
\<close>

type_synonym date = int

record host =
  offsetAt :: "date \<Rightarrow> int"
  offsetOfLocal :: "int \<Rightarrow> int"

text \<open>A host whose clock is never changed: one offset at all times.\<close>

definition fixedZone :: "int \<Rightarrow> host" where
  "fixedZone tz = \<lparr>offsetAt = (\<lambda>t. tz), offsetOfLocal = (\<lambda>l. tz)\<rparr>"

text \<open>
  A host in New York in the autumn of 2024: four hours behind UTC until
  2024-11-03T06:00:00Z, when the clock is set back from 02:00 to 01:00, and five hours
  behind from then on. A local time of the repeated hour is read with the earlier
  offset.
\<close>

definition fallBackHost :: host where
  "fallBackHost =
     \<lparr>offsetAt = (\<lambda>t. if t < 1730613600000 then - 14400000 else - 18000000),
      offsetOfLocal = (\<lambda>l. if l < 1730599200000 then - 14400000 else - 18000000)\<rparr>"

definition LocalTime :: "host \<Rightarrow> date \<Rightarrow> int" where
  "LocalTime z t = t + offsetAt z t"

definition UTC :: "host \<Rightarrow> int \<Rightarrow> date" where
  "UTC z l = l - offsetOfLocal z l"

definition getHours :: "host \<Rightarrow> date \<Rightarrow> int" where
  "getHours z d = (LocalTime z d div 3600000) mod 24"

definition getMinutes :: "host \<Rightarrow> date \<Rightarrow> int" where
  "getMinutes z d = (LocalTime z d div 60000) mod 60"

definition getSeconds :: "host \<Rightarrow> date \<Rightarrow> int" where
  "getSeconds z d = (LocalTime z d div 1000) mod 60"

text \<open>
  \<open>d.setHours(0, 0, 0, 0)\<close>: the local time of \<open>d\<close> with the time of day set to
  midnight, read back as an instant.
\<close>

definition setHours0 :: "host \<Rightarrow> date \<Rightarrow> date" where
  "setHours0 z d = (let l = LocalTime z d in UTC z (l - l mod 86400000))"

text \<open>Two instants lie on the same calendar day of the host.\<close>

definition sameDay :: "host \<Rightarrow> date \<Rightarrow> date \<Rightarrow> bool" where
  "sameDay z d1 d2 = (LocalTime z d1 div 86400000 = LocalTime z d2 div 86400000)"

text \<open>
  By how much the time elapsed since local midnight is ahead of the time of day the
  clock shows: positive after the clock was set back during the day, negative after it
  was set forward, zero on a day without a change.
\<close>

definition setBack :: "host \<Rightarrow> date \<Rightarrow> int" where
  "setBack z now = (now - setHours0 z now) - LocalTime z now mod 86400000"

section \<open>The simulated steps\<close>

definition useSimulatedSteps :: "host \<Rightarrow> date \<Rightarrow> real" where
  "useSimulatedSteps z now =
     (let startOfDay = setHours0 z now;
          goal = 10000;
          dayProgress = clamp (real_of_int (now - startOfDay) / (24 * 3600 * 1000)) 0 1;
          circadian = 0.5 + 0.5 * sin (real_of_int (getHours z now - 6) / 24 * pi * 2);
          steps = Math_round (goal * dayProgress * (0.7 + 0.6 * circadian))
      in clamp steps 0 goal)"

text \<open>
  The number that is rounded and clamped: \<open>dayProgress * (0.7 + 0.6 * circadian)\<close>, the
  fraction of the goal.
\<close>

definition stepsFraction :: "host \<Rightarrow> date \<Rightarrow> real" where
  "stepsFraction z now =
     clamp (real_of_int (now - setHours0 z now) / (24 * 3600 * 1000)) 0 1
       * (0.7 + 0.6 * (0.5 + 0.5 * sin (real_of_int (getHours z now - 6) / 24 * pi * 2)))"

section \<open>The hands\<close>

record hand_angles =
  hour :: real
  minute :: real
  second :: real

definition handAngle :: "host \<Rightarrow> date \<Rightarrow> hand_angles" where
  "handAngle z now =
     (let h = getHours z now mod 12;
          m = getMinutes z now;
          s = getSeconds z now
      in \<lparr>hour = (real_of_int h + real_of_int m / 60) * 30,
          minute = (real_of_int m + real_of_int s / 60) * 6,
          second = real_of_int s * 6\<rparr>)"

section \<open>Formatting\<close>

text \<open>\<open>n.toString()\<close> for an integer: decimal digits, with a sign when negative.\<close>

definition digit :: "nat \<Rightarrow> char" where
  "digit n = ''0123456789'' ! (n mod 10)"

function toString_nat :: "nat \<Rightarrow> string" where
  "toString_nat n = (if n < 10 then [digit n] else toString_nat (n div 10) @ [digit n])"
  by pat_completeness auto
termination
  by (relation "measure id") auto

definition toString :: "int \<Rightarrow> string" where
  "toString n = (if n < 0 then CHR ''-'' # toString_nat (nat (- n)) else toString_nat (nat n))"

definition padStart :: "nat \<Rightarrow> char \<Rightarrow> string \<Rightarrow> string" where
  "padStart n c s = replicate (n - length s) c @ s"

text \<open>
  The numbers that reach \<open>formatTwoDigits\<close> are the fields of a \<open>Date\<close>: integers, or
  \<open>NaN\<close> when the \<open>Date\<close> is invalid. \<open>NaN\<close> is \<open>None\<close>, and prints as \<open>NaN\<close>.
\<close>

definition formatTwoDigits :: "int option \<Rightarrow> string" where
  "formatTwoDigits n =
     padStart 2 (CHR ''0'') (case n of None \<Rightarrow> ''NaN'' | Some k \<Rightarrow> toString k)"

text \<open>
  \<open>formatHhMm\<close> is applied to the \<open>Date\<close> that \<open>getZonedDate\<close> builds, which can be
  invalid (\<open>None\<close>): its fields are then \<open>NaN\<close>.
\<close>

definition formatHhMm :: "host \<Rightarrow> date option \<Rightarrow> string" where
  "formatHhMm z now =
     (let h = map_option (getHours z) now; m = map_option (getMinutes z) now
      in formatTwoDigits h @ '':'' @ formatTwoDigits m)"

section \<open>The second time zone\<close>

text \<open>
  \<open>getZonedDate\<close> asks \<open>Intl.DateTimeFormat\<close> for the fields of the current instant in the
  zone \<open>zone\<close>, writes them into a string without an offset and gives the string to the
  \<open>Date\<close> constructor, which reads a string of this form as local time of the host. Both
  belong to the platform and are modelled after their specifications. The time zone
  data is the parameter \<open>tzdb\<close>: the offset of a named zone from UTC at an instant, in
  milliseconds.
\<close>

text \<open>The civil date (year, month, day) of a day number, in the Gregorian calendar.\<close>

definition civilFromDays :: "int \<Rightarrow> int \<times> int \<times> int" where
  "civilFromDays n =
     (let z = n + 719468;
          era = z div 146097;
          doe = z - era * 146097;
          yoe = (doe - doe div 1460 + doe div 36524 - doe div 146096) div 365;
          y = yoe + era * 400;
          doy = doe - (365 * yoe + yoe div 4 - yoe div 100);
          mp = (5 * doy + 2) div 153;
          d = doy - (153 * mp + 2) div 5 + 1;
          m = (if mp < 10 then mp + 3 else mp - 9)
      in (if m \<le> 2 then y + 1 else y, m, d))"

text \<open>\<open>MakeDay\<close>: the day number of a civil date.\<close>

definition MakeDay :: "int \<Rightarrow> int \<Rightarrow> int \<Rightarrow> int" where
  "MakeDay y m d =
     (let y' = (if m \<le> 2 then y - 1 else y);
          era = y' div 400;
          yoe = y' - era * 400;
          doy = (153 * (if m > 2 then m - 3 else m + 9) + 2) div 5 + d - 1;
          doe = yoe * 365 + yoe div 4 - yoe div 100 + doy
      in era * 146097 + doe - 719468)"

definition MakeDate :: "int \<Rightarrow> int \<Rightarrow> int \<Rightarrow> int \<Rightarrow> int" where
  "MakeDate dayNumber h m s = dayNumber * 86400000 + h * 3600000 + m * 60000 + s * 1000"

text \<open>
  The parts that \<open>formatToParts\<close> yields and the source collects by their type; the
  literal parts are dropped. They are the fields of the local time of the zone. The
  year is \<open>numeric\<close>, all other fields are \<open>2-digit\<close>; with \<open>hour12: false\<close> the
  hour runs from 00 to 23.
\<close>

record date_parts =
  year_part :: string
  month_part :: string
  day_part :: string
  hour_part :: string
  minute_part :: string
  second_part :: string

definition twoDigit :: "int \<Rightarrow> string" where
  "twoDigit n = padStart 2 (CHR ''0'') (toString n)"

definition localParts :: "int \<Rightarrow> date_parts" where
  "localParts l =
     (let (y, m, dd) = civilFromDays (l div 86400000)
      in \<lparr>year_part = toString y,
          month_part = twoDigit m,
          day_part = twoDigit dd,
          hour_part = twoDigit ((l div 3600000) mod 24),
          minute_part = twoDigit ((l div 60000) mod 60),
          second_part = twoDigit ((l div 1000) mod 60)\<rparr>)"

definition formatToParts :: "(string \<Rightarrow> date \<Rightarrow> int) \<Rightarrow> string \<Rightarrow> date \<Rightarrow> date_parts" where
  "formatToParts tzdb zone d = localParts (d + tzdb zone d)"

text \<open>The template string of line 192.\<close>

definition isoString :: "date_parts \<Rightarrow> string" where
  "isoString parts =
     year_part parts @ ''-'' @ month_part parts @ ''-'' @ day_part parts @ ''T''
       @ hour_part parts @ '':'' @ minute_part parts @ '':'' @ second_part parts"

text \<open>
  The \<open>Date\<close> constructor on a string. A string of the form \<open>YYYY-MM-DDTHH:mm:ss\<close> with
  fields in range is a local time; any other string that the source can build (a year
  that does not have four digits) is taken to give an invalid \<open>Date\<close>, \<open>None\<close>.
\<close>

definition digitValue :: "char \<Rightarrow> int option" where
  "digitValue c =
     map_of [(CHR ''0'', 0), (CHR ''1'', 1), (CHR ''2'', 2), (CHR ''3'', 3), (CHR ''4'', 4),
             (CHR ''5'', 5), (CHR ''6'', 6), (CHR ''7'', 7), (CHR ''8'', 8), (CHR ''9'', 9)] c"

fun digitsValue :: "int \<Rightarrow> string \<Rightarrow> int option" where
  "digitsValue acc [] = Some acc"
| "digitsValue acc (c # cs) =
     (case digitValue c of None \<Rightarrow> None | Some v \<Rightarrow> digitsValue (10 * acc + v) cs)"

definition parseLocal :: "string \<Rightarrow> int option" where
  "parseLocal s =
     (if length s \<noteq> 19 then None
      else
        let dateS = take 10 s; timeS = drop 10 s
        in if dateS ! 4 \<noteq> CHR ''-'' \<or> dateS ! 7 \<noteq> CHR ''-'' \<or> timeS ! 0 \<noteq> CHR ''T''
              \<or> timeS ! 3 \<noteq> CHR '':'' \<or> timeS ! 6 \<noteq> CHR '':''
           then None
           else
             (case digitsValue 0 (take 4 dateS) of None \<Rightarrow> None | Some y \<Rightarrow>
              case digitsValue 0 (take 2 (drop 5 dateS)) of None \<Rightarrow> None | Some mo \<Rightarrow>
              case digitsValue 0 (take 2 (drop 8 dateS)) of None \<Rightarrow> None | Some d \<Rightarrow>
              case digitsValue 0 (take 2 (drop 1 timeS)) of None \<Rightarrow> None | Some h \<Rightarrow>
              case digitsValue 0 (take 2 (drop 4 timeS)) of None \<Rightarrow> None | Some mi \<Rightarrow>
              case digitsValue 0 (take 2 (drop 7 timeS)) of None \<Rightarrow> None | Some sec \<Rightarrow>
                if 1 \<le> mo \<and> mo \<le> 12 \<and> 1 \<le> d \<and> d \<le> 31 \<and> mi \<le> 59 \<and> sec \<le> 59
                   \<and> (h \<le> 23 \<or> (h = 24 \<and> mi = 0 \<and> sec = 0))
                then Some (MakeDate (MakeDay y mo d) h mi sec)
                else None))"

text \<open>\<open>new Date(iso)\<close>: the local time of the string, read back as an instant.\<close>

definition Date_of_string :: "host \<Rightarrow> string \<Rightarrow> date option" where
  "Date_of_string z s = map_option (UTC z) (parseLocal s)"

definition getZonedDate :: "(string \<Rightarrow> date \<Rightarrow> int) \<Rightarrow> host \<Rightarrow> string \<Rightarrow> date \<Rightarrow> date option" where
  "getZonedDate tzdb z zone now =
     (let parts = formatToParts tzdb zone now;
          iso = isoString parts
      in Date_of_string z iso)"

section \<open>The weather\<close>

definition mapWeatherCodeToIcon :: "real option \<Rightarrow> string" where
  "mapWeatherCodeToIcon code =
     (case code of
        None \<Rightarrow> ''?''
      | Some c \<Rightarrow>
          if c \<in> set [0] then ''?''
          else if c \<in> set [1, 2, 3] then ''?''
          else if c \<in> set [45, 48] then ''??''
          else if c \<in> set [51, 53, 55, 56, 57] then ''??''
          else if c \<in> set [61, 63, 65, 80, 81, 82] then ''??''
          else if c \<in> set [66, 67, 71, 73, 75, 77, 85, 86] then ''??''
          else if c \<in> set [95, 96, 99] then ''?''
          else ''?'')"

text \<open>
  The value \<open>res.json()\<close> resolves to. An \<open>undefined\<close> that property access yields is
  \<open>None\<close> of \<open>json option\<close>.
\<close>

datatype json =
  JNull
| JBool bool
| JNum real
| JStr string
| JArr "json list"
| JObj "(string \<times> json) list"

text \<open>
  \<open>a?.name\<close> for the property names the source reads (\<open>current\<close>, \<open>daily\<close>,
  \<open>temperature_2m\<close>, \<open>weather_code\<close>, \<open>sunrise\<close>, \<open>sunset\<close>): only an object has them.
\<close>

definition optProp :: "json option \<Rightarrow> string \<Rightarrow> json option" where
  "optProp a name =
     (case a of
        None \<Rightarrow> None
      | Some JNull \<Rightarrow> None
      | Some (JObj kvs) \<Rightarrow> map_of kvs name
      | Some _ \<Rightarrow> None)"

text \<open>\<open>a?.[0]\<close>: the first element of an array, the first character of a string.\<close>

definition optIndex0 :: "json option \<Rightarrow> json option" where
  "optIndex0 a =
     (case a of
        None \<Rightarrow> None
      | Some JNull \<Rightarrow> None
      | Some (JArr xs) \<Rightarrow> (case xs of [] \<Rightarrow> None | x # _ \<Rightarrow> Some x)
      | Some (JStr s) \<Rightarrow> (case s of [] \<Rightarrow> None | c # _ \<Rightarrow> Some (JStr [c]))
      | Some (JObj kvs) \<Rightarrow> map_of kvs ''0''
      | Some _ \<Rightarrow> None)"

text \<open>\<open>typeof v === "number" ? v : null\<close>\<close>

definition numberOrNull :: "json option \<Rightarrow> real option" where
  "numberOrNull v = (case v of Some (JNum x) \<Rightarrow> Some x | _ \<Rightarrow> None)"

text \<open>
  \<open>v ? new Date(v) : null\<close>. The \<open>Date\<close> built from a payload value is kept as that
  value. The constructor converts an object or an array to a primitive first, and that
  conversion throws a \<open>TypeError\<close> when it finds no callable \<open>toString\<close>: for a parsed
  object that has a property \<open>toString\<close> of its own (no value of a parsed body is
  callable), and for an array that holds such an element, since the array is joined.
\<close>

datatype payload_date = NewDate json

datatype error = TypeError

definition truthy :: "json option \<Rightarrow> bool" where
  "truthy v =
     (case v of
        None \<Rightarrow> False
      | Some JNull \<Rightarrow> False
      | Some (JBool b) \<Rightarrow> b
      | Some (JNum x) \<Rightarrow> x \<noteq> 0
      | Some (JStr s) \<Rightarrow> s \<noteq> []
      | Some _ \<Rightarrow> True)"

fun toPrimitiveThrows :: "json \<Rightarrow> bool" where
  "toPrimitiveThrows (JObj kvs) = (''toString'' \<in> set (map fst kvs))"
| "toPrimitiveThrows (JArr xs) = list_ex toPrimitiveThrows xs"
| "toPrimitiveThrows JNull = False"
| "toPrimitiveThrows (JBool b) = False"
| "toPrimitiveThrows (JNum x) = False"
| "toPrimitiveThrows (JStr s) = False"

definition dateOrNull :: "json option \<Rightarrow> error + payload_date option" where
  "dateOrNull v =
     (if truthy v
      then (case v of
              None \<Rightarrow> Inr None
            | Some x \<Rightarrow> if toPrimitiveThrows x then Inl TypeError else Inr (Some (NewDate x)))
      else Inr None)"

record WeatherData =
  temperatureC :: "real option"
  weatherCode :: "real option"
  sunrise :: "payload_date option"
  sunset :: "payload_date option"

text \<open>
  What the request came to: \<open>fetch\<close> rejected, or a response with its \<open>ok\<close> flag and the
  value its body parses to (\<open>None\<close> when the body is not JSON and \<open>res.json()\<close>
  rejects).
\<close>

datatype fetch_result = Rejected | Response bool "json option"

text \<open>The copy \<open>{ ...d }\<close>.\<close>

definition spread :: "WeatherData \<Rightarrow> WeatherData" where
  "spread d = \<lparr>temperatureC = temperatureC d, weatherCode = weatherCode d,
               sunrise = sunrise d, sunset = sunset d\<rparr>"

text \<open>
  \<open>fetchWeather\<close> (lines 99-122) as a function of the state \<open>data\<close>: \<open>cancelled\<close> is the
  flag of the effect at the time the request settles.
\<close>

definition fetchWeather_catch :: "bool \<Rightarrow> WeatherData \<Rightarrow> WeatherData" where
  "fetchWeather_catch cancelled d = (if \<not> cancelled then spread d else d)"

definition fetchWeather :: "bool \<Rightarrow> fetch_result \<Rightarrow> WeatherData \<Rightarrow> WeatherData" where
  "fetchWeather cancelled r d =
     (case r of
        Rejected \<Rightarrow> fetchWeather_catch cancelled d
      | Response ok body \<Rightarrow>
          if \<not> ok then fetchWeather_catch cancelled d
          else (case body of
                  None \<Rightarrow> fetchWeather_catch cancelled d
                | Some j \<Rightarrow>
                    let temperatureC = numberOrNull (optProp (optProp (Some j) ''current'') ''temperature_2m'');
                        weatherCode = numberOrNull (optProp (optProp (Some j) ''current'') ''weather_code'');
                        sunriseStr = optIndex0 (optProp (optProp (Some j) ''daily'') ''sunrise'');
                        sunsetStr = optIndex0 (optProp (optProp (Some j) ''daily'') ''sunset'')
                    in (case dateOrNull sunriseStr of
                          Inl e \<Rightarrow> fetchWeather_catch cancelled d
                        | Inr sunriseDate \<Rightarrow>
                            (case dateOrNull sunsetStr of
                               Inl e \<Rightarrow> fetchWeather_catch cancelled d
                             | Inr sunsetDate \<Rightarrow>
                                 if \<not> cancelled
                                 then \<lparr>temperatureC = temperatureC, weatherCode = weatherCode,
                                       sunrise = sunriseDate, sunset = sunsetDate\<rparr>
                                 else d))))"

text \<open>The state \<open>useWeather\<close> starts from.\<close>

definition useWeather_initial :: WeatherData where
  "useWeather_initial = \<lparr>temperatureC = None, weatherCode = None, sunrise = None, sunset = None\<rparr>"

text \<open>
  The snapshot that a payload stands for, written field by field on the structure of
  the payload, to compare \<open>fetchWeather\<close> with. A number under \<open>current\<close> is taken when
  it is a number and is unknown otherwise; the first entry under \<open>daily\<close> becomes a
  \<open>Date\<close> when it is present and truthy and is unknown otherwise. There is no snapshot
  (\<open>None\<close>) when building one of the two dates throws.
\<close>

fun numberAt :: "string \<Rightarrow> string \<Rightarrow> json \<Rightarrow> real option" where
  "numberAt outer inner (JObj kvs) =
     (case map_of kvs outer of
        Some (JObj cs) \<Rightarrow> (case map_of cs inner of Some (JNum x) \<Rightarrow> Some x | _ \<Rightarrow> None)
      | _ \<Rightarrow> None)"
| "numberAt outer inner j = None"

fun firstAt :: "string \<Rightarrow> string \<Rightarrow> json \<Rightarrow> json option" where
  "firstAt outer inner (JObj kvs) =
     (case map_of kvs outer of
        Some (JObj cs) \<Rightarrow>
          (case map_of cs inner of
             Some (JArr (x # xs)) \<Rightarrow> Some x
           | Some (JStr (c # s)) \<Rightarrow> Some (JStr [c])
           | Some (JObj os) \<Rightarrow> map_of os ''0''
           | _ \<Rightarrow> None)
      | _ \<Rightarrow> None)"
| "firstAt outer inner j = None"

fun falsy :: "json \<Rightarrow> bool" where
  "falsy JNull = True"
| "falsy (JBool b) = (\<not> b)"
| "falsy (JNum x) = (x = 0)"
| "falsy (JStr s) = (s = [])"
| "falsy (JArr xs) = False"
| "falsy (JObj kvs) = False"

fun dateAt :: "json option \<Rightarrow> payload_date option option" where
  "dateAt None = Some None"
| "dateAt (Some v) =
     (if falsy v then Some None
      else if toPrimitiveThrows v then None
      else Some (Some (NewDate v)))"

definition payloadSnapshot :: "json \<Rightarrow> WeatherData option" where
  "payloadSnapshot j =
     (case dateAt (firstAt ''daily'' ''sunrise'' j) of
        None \<Rightarrow> None
      | Some riseDate \<Rightarrow>
          (case dateAt (firstAt ''daily'' ''sunset'' j) of
             None \<Rightarrow> None
           | Some setDate \<Rightarrow>
               Some \<lparr>temperatureC = numberAt ''current'' ''temperature_2m'' j,
                     weatherCode = numberAt ''current'' ''weather_code'' j,
                     sunrise = riseDate, sunset = setDate\<rparr>))"

section \<open>Ticks and requests\<close>

text \<open>
  \<open>useNow\<close> holds a \<open>Date\<close> object and replaces it by a new one each second. An object
  is a pair of its identity and its time value; \<open>useNow ts\<close> lists the value of \<open>now\<close>
  at each render, for the clock readings \<open>ts\<close> of the first render and of every
  interval callback.
\<close>

type_synonym date_object = "nat \<times> date"

definition useNow :: "date list \<Rightarrow> date_object list" where
  "useNow ts = enumerate 0 ts"

text \<open>
  An effect with the dependency list \<open>[now]\<close> runs after the first render and after each
  render whose \<open>now\<close> is not the same object (\<open>Object.is\<close>) as that of the render before.
\<close>

fun effectRuns :: "date_object option \<Rightarrow> date_object list \<Rightarrow> date_object list" where
  "effectRuns prev [] = []"
| "effectRuns prev (d # ds) =
     (if (case prev of None \<Rightarrow> False | Some p \<Rightarrow> fst p = fst d)
      then effectRuns (Some d) ds
      else d # effectRuns (Some d) ds)"

text \<open>
  One run of the effect of \<open>useWeather\<close> (lines 124-138) calls \<open>fetchWeather\<close> once: with
  the position, or with London when there is no geolocation or it fails.
\<close>

datatype geolocation = NoGeolocation | Position real real | PositionError

definition requestCoordinates :: "geolocation \<Rightarrow> real \<times> real" where
  "requestCoordinates g =
     (case g of
        NoGeolocation \<Rightarrow> (51.5074, - 0.1278)
      | Position lat lon \<Rightarrow> (lat, lon)
      | PositionError \<Rightarrow> (51.5074, - 0.1278))"

text \<open>A browser without \<open>navigator.geolocation\<close>.\<close>

definition noGeolocation :: "date_object \<Rightarrow> geolocation" where
  "noGeolocation d = NoGeolocation"

text \<open>The requests a sequence of renders issues: the instant of each, and its coordinates.\<close>

definition useWeather_requests ::
    "(date_object \<Rightarrow> geolocation) \<Rightarrow> date_object list \<Rightarrow> (date \<times> real \<times> real) list" where
  "useWeather_requests geo renders =
     map (\<lambda>d. (snd d, requestCoordinates (geo d))) (effectRuns None renders)"

text \<open>Two instants lie in the same minute of the clock.\<close>

definition sameMinute :: "date \<Rightarrow> date \<Rightarrow> bool" where
  "sameMinute d1 d2 = (d1 div 60000 = d2 div 60000)"

section \<open>Properties of the battery\<close>

lemma Math_round_nonneg: "0 \<le> x \<Longrightarrow> 0 \<le> Math_round x"
  by (simp add: Math_round_def)

lemma clamp_bounds: "mn \<le> mx \<Longrightarrow> mn \<le> clamp v mn mx \<and> clamp v mn mx \<le> mx"
  by (simp add: clamp_def)

lemma init_nonneg: "0 \<le> useSimulatedBattery_init window st now rnd"
  by (simp add: useSimulatedBattery_init_def Let_def Math_round_nonneg)

lemma tick_battery:
  "battery (useSimulatedBattery_tick s now) = clamp (battery s - 0.0007) 0 100"
  by (simp add: useSimulatedBattery_tick_def Let_def)

lemma tick_range:
  "0 \<le> battery (useSimulatedBattery_tick s now) \<and> battery (useSimulatedBattery_tick s now) \<le> 100"
  by (simp add: tick_battery clamp_def)

lemma tick_le: "0 \<le> battery s \<Longrightarrow> battery (useSimulatedBattery_tick s now) \<le> battery s"
  by (simp add: tick_battery clamp_def)

lemma foldl_tick_nonneg:
  "0 \<le> battery s \<Longrightarrow> 0 \<le> battery (foldl useSimulatedBattery_tick s ticks)"
proof (induction ticks arbitrary: s)
  case Nil
  then show ?case by simp
next
  case (Cons t ticks)
  have "0 \<le> battery (useSimulatedBattery_tick s t)"
    using tick_range by blast
  then show ?case
    using Cons.IH by simp
qed

lemma run_nonneg:
  "0 \<le> battery s \<Longrightarrow> 0 \<le> battery (useSimulatedBattery_run window s ticks)"
  by (simp add: useSimulatedBattery_run_def foldl_tick_nonneg)

lemma run_snoc:
  "useSimulatedBattery_run True s (ticks @ [t]) =
     useSimulatedBattery_tick (useSimulatedBattery_run True s ticks) t"
  by (simp add: useSimulatedBattery_run_def)

text \<open>
  Claim C8. With the persisted baseline 80 written at time \<open>T\<close> and the clock at
  \<open>T\<close> plus 60 minutes, the initial battery value is 80 - 60 * 0.04 = 77.6, which lies
  in the range from 0 to 100.
\<close>

theorem C8_battery_after_one_hour:
  "useSimulatedBattery_init True
     \<lparr>batteryPercent = Some 80, batteryUpdatedAt = Some T\<rparr> (T + 60 * 60000) rnd = 77.6
   \<and> 80 - 60 * 0.04 = (77.6 :: real)
   \<and> 0 \<le> useSimulatedBattery_init True
        \<lparr>batteryPercent = Some 80, batteryUpdatedAt = Some T\<rparr> (T + 60 * 60000) rnd
   \<and> useSimulatedBattery_init True
        \<lparr>batteryPercent = Some 80, batteryUpdatedAt = Some T\<rparr> (T + 60 * 60000) rnd \<le> 100"
proof -
  have "useSimulatedBattery_init True
     \<lparr>batteryPercent = Some 80, batteryUpdatedAt = Some T\<rparr> (T + 60 * 60000) rnd = 77.6"
    by (simp add: useSimulatedBattery_init_def Let_def Math_round_def)
  then show ?thesis by simp
qed

text \<open>
  Claim C10. In a running session the battery never rises: a tick maps a value \<open>b\<close>
  between 0 and 100 to \<open>clamp (b - 0.0007) 0 100\<close>, which is at most \<open>b\<close>; and in
  every session, whatever was persisted and whatever the clock reads, the value after
  one more tick is at most the value before it.
\<close>

theorem C10_battery_never_increases:
  "(0 \<le> b \<and> b \<le> 100 \<longrightarrow>
      battery (useSimulatedBattery_tick \<lparr>battery = b, store = st\<rparr> t) = clamp (b - 0.0007) 0 100
      \<and> clamp (b - 0.0007) 0 100 \<le> b)
   \<and> battery (useSimulatedBattery_run window
                 (useSimulatedBattery_start window st0 now rnd) (ticks @ [t]))
       \<le> battery (useSimulatedBattery_run window
                     (useSimulatedBattery_start window st0 now rnd) ticks)"
proof (intro conjI impI)
  assume "0 \<le> b \<and> b \<le> 100"
  then show "clamp (b - 0.0007) 0 100 \<le> b"
    by (simp add: clamp_def)
next
  show "battery (useSimulatedBattery_tick \<lparr>battery = b, store = st\<rparr> t) = clamp (b - 0.0007) 0 100"
    by (simp add: tick_battery)
next
  let ?s0 = "useSimulatedBattery_start window st0 now rnd"
  have start: "0 \<le> battery ?s0"
    by (simp add: useSimulatedBattery_start_def init_nonneg)
  show "battery (useSimulatedBattery_run window ?s0 (ticks @ [t]))
          \<le> battery (useSimulatedBattery_run window ?s0 ticks)"
  proof (cases window)
    case True
    have "0 \<le> battery (useSimulatedBattery_run True ?s0 ticks)"
      using start by (rule run_nonneg)
    then show ?thesis
      using True by (simp add: run_snoc tick_le)
  next
    case False
    then show ?thesis
      by (simp add: useSimulatedBattery_run_def)
  qed
qed

theorem C10_battery_never_increases_witness:
  "(0::real) \<le> 50 \<and> (50::real) \<le> 100
   \<and> battery (useSimulatedBattery_tick
        \<lparr>battery = 50, store = \<lparr>batteryPercent = None, batteryUpdatedAt = None\<rparr>\<rparr> 1000) = 49.9993
   \<and> clamp (50 - 0.0007) 0 100 \<le> 50"
  using C10_battery_never_increases
    [of 50 "\<lparr>batteryPercent = None, batteryUpdatedAt = None\<rparr>" 1000 True
        "\<lparr>batteryPercent = None, batteryUpdatedAt = None\<rparr>" 0 0 "[]"]
  by (simp add: clamp_def)

text \<open>
  Claim C2, the initial value. The store holds the baseline 99.9993, as a tick writes
  it, with a time stamp 1000 minutes ahead of the clock (the clock was set back since
  that tick): the initialiser floors the value at 0 only, and returns 140, above 100.
\<close>

theorem C2_initial_value_above_100:
  "useSimulatedBattery_init True
     \<lparr>batteryPercent = Some 99.9993, batteryUpdatedAt = Some 60000000\<rparr> 0 rnd = 140
   \<and> \<not> (useSimulatedBattery_init True
     \<lparr>batteryPercent = Some 99.9993, batteryUpdatedAt = Some 60000000\<rparr> 0 rnd \<le> 100)"
proof -
  have "useSimulatedBattery_init True
     \<lparr>batteryPercent = Some 99.9993, batteryUpdatedAt = Some 60000000\<rparr> 0 rnd = 140"
    by (simp add: useSimulatedBattery_init_def Let_def Math_round_def)
  then show ?thesis by simp
qed

text \<open>
  What does hold of C2: every tick leaves the value between 0 and 100, from any value
  at all; the initial value is never negative; and it is at most 100 when the baseline
  is and the stored time stamp is not ahead of the clock.
\<close>

lemma battery_tick_in_range:
  "0 \<le> battery (useSimulatedBattery_tick s now) \<and> battery (useSimulatedBattery_tick s now) \<le> 100
   \<and> 0 \<le> useSimulatedBattery_init window st now' rnd"
  using tick_range init_nonneg by blast

lemma Math_round_le: "x \<le> real_of_int n \<Longrightarrow> Math_round x \<le> real_of_int n"
proof -
  assume "x \<le> real_of_int n"
  then have "x + 1 / 2 < real_of_int (n + 1)" by simp
  then have "\<lfloor>x + 1 / 2\<rfloor> < n + 1" by (simp only: floor_less_iff)
  then show ?thesis by (simp add: Math_round_def)
qed

lemma diff_left_bound:
  fixes b m :: real
  shows "b \<le> 100 \<Longrightarrow> 0 \<le> m \<Longrightarrow> b - m \<le> 100"
  by simp

lemma init_upper:
  assumes b: "case batteryPercent st of Some v \<Rightarrow> v \<le> 100 | None \<Rightarrow> rnd \<le> 1"
    and u: "case batteryUpdatedAt st of Some u \<Rightarrow> u \<le> now | None \<Rightarrow> True"
  shows "useSimulatedBattery_init window st now rnd \<le> 100"
proof (cases window)
  case False
  then show ?thesis by (simp add: useSimulatedBattery_init_def)
next
  case True
  let ?baseline = "case batteryPercent st of Some v \<Rightarrow> v | None \<Rightarrow> Math_round (60 + rnd * 40)"
  let ?last = "case batteryUpdatedAt st of Some u \<Rightarrow> u | None \<Rightarrow> now"
  have "?baseline \<le> 100"
  proof (cases "batteryPercent st")
    case None
    with b have "60 + rnd * 40 \<le> real_of_int 100" by simp
    then have "Math_round (60 + rnd * 40) \<le> real_of_int 100" by (rule Math_round_le)
    with None show ?thesis by simp
  next
    case (Some v)
    with b show ?thesis by simp
  qed
  moreover have "?last \<le> now"
    using u by (simp split: option.splits)
  then have "0 \<le> real_of_int (now - ?last) / 60000 * 0.04" by simp
  ultimately have "?baseline - real_of_int (now - ?last) / 60000 * 0.04 \<le> 100"
    by (rule diff_left_bound)
  then have "max 0 (?baseline - real_of_int (now - ?last) / 60000 * 0.04) * 10 \<le> real_of_int 1000"
    by simp
  then have "Math_round (max 0 (?baseline - real_of_int (now - ?last) / 60000 * 0.04) * 10) \<le> real_of_int 1000"
    by (rule Math_round_le)
  then show ?thesis
    using True by (simp add: useSimulatedBattery_init_def Let_def)
qed

section \<open>Properties of the hands\<close>

lemma fields_range:
  "0 \<le> getHours z d \<and> getHours z d < 24 \<and> 0 \<le> getMinutes z d \<and> getMinutes z d < 60
   \<and> 0 \<le> getSeconds z d \<and> getSeconds z d < 60"
  by (simp add: getHours_def getMinutes_def getSeconds_def)

lemma hour_angle_bound:
  fixes h m :: int
  assumes "0 \<le> h" "h < 12" "0 \<le> m" "m < 60"
  shows "0 \<le> (real_of_int h + real_of_int m / 60) * 30
       \<and> (real_of_int h + real_of_int m / 60) * 30 < 360"
proof -
  have "real_of_int h \<le> 11" using assms(2) by simp
  moreover have "real_of_int m < 60" using assms(4) by simp
  moreover have "0 \<le> real_of_int h" "0 \<le> real_of_int m" using assms(1,3) by simp_all
  ultimately show ?thesis by simp
qed

lemma minute_angle_bound:
  fixes m s :: int
  assumes "0 \<le> m" "m < 60" "0 \<le> s" "s < 60"
  shows "0 \<le> (real_of_int m + real_of_int s / 60) * 6
       \<and> (real_of_int m + real_of_int s / 60) * 6 < 360"
proof -
  have "real_of_int m \<le> 59" using assms(2) by simp
  moreover have "real_of_int s < 60" using assms(4) by simp
  moreover have "0 \<le> real_of_int m" "0 \<le> real_of_int s" using assms(1,3) by simp_all
  ultimately show ?thesis by simp
qed

lemma second_angle_bound:
  fixes s :: int
  assumes "0 \<le> s" "s < 60"
  shows "0 \<le> real_of_int s * 6 \<and> real_of_int s * 6 < 360"
proof -
  have "real_of_int s < 60" using assms(2) by simp
  moreover have "0 \<le> real_of_int s" using assms(1) by simp
  ultimately show ?thesis by simp
qed

lemma handAngle_fields:
  "hour (handAngle z now)
     = (real_of_int (getHours z now mod 12) + real_of_int (getMinutes z now) / 60) * 30
   \<and> minute (handAngle z now)
     = (real_of_int (getMinutes z now) + real_of_int (getSeconds z now) / 60) * 6
   \<and> second (handAngle z now) = real_of_int (getSeconds z now) * 6"
  by (simp add: handAngle_def Let_def)

lemma handAngle_range:
  "0 \<le> hour (handAngle z now) \<and> hour (handAngle z now) < 360
   \<and> 0 \<le> minute (handAngle z now) \<and> minute (handAngle z now) < 360
   \<and> 0 \<le> second (handAngle z now) \<and> second (handAngle z now) < 360"
proof -
  have h: "0 \<le> getHours z now mod 12 \<and> getHours z now mod 12 < 12" by simp
  note f = fields_range [of z now]
  show ?thesis
    using hour_angle_bound [of "getHours z now mod 12" "getMinutes z now"]
      minute_angle_bound [of "getMinutes z now" "getSeconds z now"]
      second_angle_bound [of "getSeconds z now"] h f
    by (simp only: handAngle_fields)
qed

text \<open>
  Claim C5. At every instant \<open>handAngle\<close> returns the hour angle
  \<open>(hour % 12 + minute / 60) * 30\<close>, the minute angle \<open>(minute + second / 60) * 6\<close> and
  the second angle \<open>second * 6\<close>; each lies in the range from 0 (included) to 360
  (excluded). At an instant whose clock reads 00:00:00 all three are 0, and at one
  whose clock reads 06:00:00 the hour angle is 180.
\<close>

theorem C5_hand_angles:
  "hour (handAngle z now)
     = (real_of_int (getHours z now mod 12) + real_of_int (getMinutes z now) / 60) * 30
   \<and> minute (handAngle z now)
     = (real_of_int (getMinutes z now) + real_of_int (getSeconds z now) / 60) * 6
   \<and> second (handAngle z now) = real_of_int (getSeconds z now) * 6
   \<and> 0 \<le> hour (handAngle z now) \<and> hour (handAngle z now) < 360
   \<and> 0 \<le> minute (handAngle z now) \<and> minute (handAngle z now) < 360
   \<and> 0 \<le> second (handAngle z now) \<and> second (handAngle z now) < 360
   \<and> (getHours z t0 = 0 \<and> getMinutes z t0 = 0 \<and> getSeconds z t0 = 0 \<longrightarrow>
        handAngle z t0 = \<lparr>hour = 0, minute = 0, second = 0\<rparr>)
   \<and> (getHours z t6 = 6 \<and> getMinutes z t6 = 0 \<and> getSeconds z t6 = 0 \<longrightarrow>
        hour (handAngle z t6) = 180)"
  using handAngle_fields [of z now] handAngle_range [of z now]
  by (simp add: handAngle_def Let_def)

text \<open>
  The hypotheses of C5 hold at the epoch and six hours after it, for a host on UTC.
\<close>

theorem C5_hand_angles_witness:
  "getHours (fixedZone 0) 0 = 0 \<and> getMinutes (fixedZone 0) 0 = 0
   \<and> getSeconds (fixedZone 0) 0 = 0
   \<and> handAngle (fixedZone 0) 0 = \<lparr>hour = 0, minute = 0, second = 0\<rparr>
   \<and> getHours (fixedZone 0) 21600000 = 6 \<and> getMinutes (fixedZone 0) 21600000 = 0
   \<and> getSeconds (fixedZone 0) 21600000 = 0
   \<and> hour (handAngle (fixedZone 0) 21600000) = 180"
proof -
  have f: "getHours (fixedZone 0) 0 = 0" "getMinutes (fixedZone 0) 0 = 0"
      "getSeconds (fixedZone 0) 0 = 0" "getHours (fixedZone 0) 21600000 = 6"
      "getMinutes (fixedZone 0) 21600000 = 0" "getSeconds (fixedZone 0) 21600000 = 0"
    by (simp_all add: getHours_def getMinutes_def getSeconds_def LocalTime_def fixedZone_def)
  show ?thesis
    using C5_hand_angles [of "fixedZone 0" 0 0 21600000] by (simp add: f)
qed

section \<open>Properties of the weather icon\<close>

text \<open>
  Claim C6. \<open>mapWeatherCodeToIcon\<close> is total. No branch of the source can raise, so the
  model has no error value; every input, the absent code and codes outside all the
  listed sets included, is mapped to one of the two icon strings of the source, and the
  codes outside the sets to the default.
\<close>

theorem C6_icon_total:
  "(mapWeatherCodeToIcon code = ''?'' \<or> mapWeatherCodeToIcon code = ''??'')
   \<and> mapWeatherCodeToIcon None = ''?''
   \<and> mapWeatherCodeToIcon (Some 4) = ''?''
   \<and> mapWeatherCodeToIcon (Some (- 1)) = ''?''
   \<and> mapWeatherCodeToIcon (Some 100) = ''?''
   \<and> mapWeatherCodeToIcon (Some 45) = ''??''"
  by (simp add: mapWeatherCodeToIcon_def split: option.split)

section \<open>Properties of the second time zone\<close>

subsection \<open>Two digits\<close>

lemma below_ten:
  fixes k :: nat
  assumes "k < 10"
  obtains "k = 0" | "k = 1" | "k = 2" | "k = 3" | "k = 4" | "k = 5" | "k = 6" | "k = 7"
    | "k = 8" | "k = 9"
proof -
  have "k = 0 \<or> k = 1 \<or> k = 2 \<or> k = 3 \<or> k = 4 \<or> k = 5 \<or> k = 6 \<or> k = 7
      \<or> k = 8 \<or> k = 9"
    using assms by presburger
  then show ?thesis
    using that by blast
qed

lemma digitValue_digit: "k < 10 \<Longrightarrow> digitValue (digit k) = Some (int k)"
  by (erule below_ten) (simp_all add: digit_def digitValue_def)

lemma digit_nth: "k < 10 \<Longrightarrow> digit k = ''0123456789'' ! k"
  by (simp add: digit_def)

lemma toString_nat_small: "k < 10 \<Longrightarrow> toString_nat k = [digit k]"
  by simp

lemma toString_nat_two:
  assumes "10 \<le> k" "k < 100"
  shows "toString_nat k = [digit (k div 10), digit (k mod 10)]"
proof -
  have "k div 10 < 10" using assms(2) by simp
  then have "toString_nat (k div 10) = [digit (k div 10)]" by (rule toString_nat_small)
  moreover have "digit k = digit (k mod 10)" by (simp add: digit_def)
  ultimately show ?thesis
    using assms(1) by (subst toString_nat.simps) simp
qed

lemma twoDigit_digits:
  assumes "0 \<le> n" "n < 100"
  shows "twoDigit n = [digit (nat n div 10), digit (nat n mod 10)]"
proof (cases "n < 10")
  case True
  then have "nat n < 10" using assms(1) by simp
  then have "toString_nat (nat n) = [digit (nat n)]" "nat n div 10 = 0" "nat n mod 10 = nat n"
    by simp_all
  then show ?thesis
    using assms(1) by (simp add: twoDigit_def toString_def padStart_def digit_def)
next
  case False
  then have "10 \<le> nat n" "nat n < 100" using assms by simp_all
  then have "toString_nat (nat n) = [digit (nat n div 10), digit (nat n mod 10)]"
    by (rule toString_nat_two)
  then show ?thesis
    using assms(1) by (simp add: twoDigit_def toString_def padStart_def)
qed

lemma twoDigit_length: "0 \<le> n \<Longrightarrow> n < 100 \<Longrightarrow> length (twoDigit n) = 2"
  by (simp add: twoDigit_digits)

lemma twoDigit_value:
  assumes "0 \<le> n" "n < 100"
  shows "digitsValue 0 (twoDigit n) = Some n"
proof -
  have a: "nat n div 10 < 10" "nat n mod 10 < 10" using assms by simp_all
  have "int (nat n div 10 * 10 + nat n mod 10) = int (nat n)"
    by (simp only: div_mult_mod_eq)
  then have "int (nat n div 10) * 10 + int (nat n mod 10) = int (nat n)"
    by (simp only: of_nat_add of_nat_mult of_nat_numeral)
  moreover have "int (nat n) = n"
    using assms(1) by simp
  ultimately have "10 * int (nat n div 10) + int (nat n mod 10) = n"
    by (simp only: mult.commute)
  then show ?thesis
    using a by (simp add: twoDigit_digits [OF assms] digitValue_digit)
qed

lemma formatTwoDigits_digits:
  assumes "0 \<le> n" "n < 100"
  shows "formatTwoDigits (Some n) = [''0123456789'' ! nat (n div 10), ''0123456789'' ! nat (n mod 10)]"
proof -
  have "formatTwoDigits (Some n) = twoDigit n"
    by (simp add: formatTwoDigits_def twoDigit_def)
  moreover have "nat n div 10 = nat (n div 10)" "nat n mod 10 = nat (n mod 10)"
    using assms(1) by (simp_all add: nat_div_distrib nat_mod_distrib)
  moreover have "nat (n div 10) < 10" "nat (n mod 10) < 10"
    using assms by simp_all
  ultimately show ?thesis
    using twoDigit_digits [OF assms] by (simp add: digit_nth)
qed

subsection \<open>The rebuilt date\<close>

text \<open>The time of day of a string that parses is the one written in it.\<close>

lemma parseLocal_time:
  assumes p: "parseLocal (P @ ''T'' @ twoDigit h @ '':'' @ twoDigit mi @ '':'' @ twoDigit sec) = Some l"
    and h: "0 \<le> h" "h < 100" and mi: "0 \<le> mi" "mi < 100" and sec: "0 \<le> sec" "sec < 100"
  shows "\<exists>dayNumber. l = MakeDate dayNumber h mi sec"
proof -
  let ?T = "''T'' @ twoDigit h @ '':'' @ twoDigit mi @ '':'' @ twoDigit sec"
  have lens: "length (twoDigit h) = 2" "length (twoDigit mi) = 2" "length (twoDigit sec) = 2"
    using h mi sec by (simp_all add: twoDigit_length)
  have "length (P @ ?T) = 19"
    using p by (simp add: parseLocal_def split: if_splits)
  then have lp: "length P = 10"
    using lens by simp
  have d: "drop 10 (P @ ?T) = ?T"
    using lp by simp
  have t: "take 2 (drop 1 ?T) = twoDigit h" "take 2 (drop 4 ?T) = twoDigit mi"
      "take 2 (drop 7 ?T) = twoDigit sec"
    using lens by simp_all
  have v: "digitsValue 0 (take 2 (drop 1 ?T)) = Some h"
      "digitsValue 0 (take 2 (drop 4 ?T)) = Some mi"
      "digitsValue 0 (take 2 (drop 7 ?T)) = Some sec"
    using h mi sec by (simp_all only: t twoDigit_value)
  show ?thesis
    using p unfolding parseLocal_def Let_def d v
    by (auto split: if_splits option.splits)
qed

lemma MakeDate_fields:
  assumes "0 \<le> h" "h < 24" "0 \<le> mi" "mi < 60" "0 \<le> sec" "sec < 60"
  shows "MakeDate dayNumber h mi sec div 3600000 mod 24 = h"
    and "MakeDate dayNumber h mi sec div 60000 mod 60 = mi"
proof -
  have "MakeDate dayNumber h mi sec = 3600000 * (dayNumber * 24 + h) + (mi * 60000 + sec * 1000)"
    by (simp add: MakeDate_def)
  moreover have "0 \<le> mi * 60000 + sec * 1000" "mi * 60000 + sec * 1000 < 3600000"
    using assms by simp_all
  ultimately have "MakeDate dayNumber h mi sec div 3600000 = dayNumber * 24 + h"
    by (rule int_div_pos_eq)
  moreover have "(dayNumber * 24 + h) mod 24 = h mod 24"
    by (rule mod_mult_self3)
  ultimately show "MakeDate dayNumber h mi sec div 3600000 mod 24 = h"
    using assms(1,2) by simp
  have "MakeDate dayNumber h mi sec = 60000 * ((dayNumber * 24 + h) * 60 + mi) + sec * 1000"
    by (simp add: MakeDate_def)
  moreover have "0 \<le> sec * 1000" "sec * 1000 < 60000"
    using assms by simp_all
  ultimately have "MakeDate dayNumber h mi sec div 60000 = (dayNumber * 24 + h) * 60 + mi"
    by (rule int_div_pos_eq)
  moreover have "((dayNumber * 24 + h) * 60 + mi) mod 60 = mi mod 60"
    by (rule mod_mult_self3)
  ultimately show "MakeDate dayNumber h mi sec div 60000 mod 60 = mi"
    using assms(3,4) by simp
qed

lemma isoString_parts:
  "\<exists>P. isoString (formatToParts tzdb zone now)
     = P @ ''T'' @ twoDigit ((now + tzdb zone now) div 3600000 mod 24) @ '':''
         @ twoDigit ((now + tzdb zone now) div 60000 mod 60) @ '':''
         @ twoDigit ((now + tzdb zone now) div 1000 mod 60)"
proof -
  obtain y m dd where c: "civilFromDays ((now + tzdb zone now) div 86400000) = (y, m, dd)"
    by (rule prod_cases3)
  have "isoString (formatToParts tzdb zone now)
     = (toString y @ ''-'' @ twoDigit m @ ''-'' @ twoDigit dd) @ ''T''
         @ twoDigit ((now + tzdb zone now) div 3600000 mod 24) @ '':''
         @ twoDigit ((now + tzdb zone now) div 60000 mod 60) @ '':''
         @ twoDigit ((now + tzdb zone now) div 1000 mod 60)"
    by (simp add: isoString_def formatToParts_def localParts_def c)
  then show ?thesis by blast
qed

lemma zoned_fields:
  assumes p: "parseLocal (isoString (formatToParts tzdb zone now)) = Some l"
  shows "l div 3600000 mod 24 = (now + tzdb zone now) div 3600000 mod 24"
    and "l div 60000 mod 60 = (now + tzdb zone now) div 60000 mod 60"
proof -
  let ?h = "(now + tzdb zone now) div 3600000 mod 24"
  let ?m = "(now + tzdb zone now) div 60000 mod 60"
  let ?s = "(now + tzdb zone now) div 1000 mod 60"
  obtain P where "isoString (formatToParts tzdb zone now)
     = P @ ''T'' @ twoDigit ?h @ '':'' @ twoDigit ?m @ '':'' @ twoDigit ?s"
    using isoString_parts by blast
  with p have "parseLocal (P @ ''T'' @ twoDigit ?h @ '':'' @ twoDigit ?m @ '':'' @ twoDigit ?s) = Some l"
    by simp
  then have "\<exists>dayNumber. l = MakeDate dayNumber ?h ?m ?s"
    by (rule parseLocal_time) simp_all
  then obtain dayNumber where l: "l = MakeDate dayNumber ?h ?m ?s" by blast
  show "l div 3600000 mod 24 = ?h"
    unfolding l by (rule MakeDate_fields) simp_all
  show "l div 60000 mod 60 = ?m"
    unfolding l by (rule MakeDate_fields) simp_all
qed

lemma zoned_format:
  assumes p: "parseLocal (isoString (formatToParts tzdb zone now)) = Some l"
    and z: "offsetAt z (UTC z l) = offsetOfLocal z l"
  shows "formatHhMm z (getZonedDate tzdb z zone now)
     = formatTwoDigits (Some ((now + tzdb zone now) div 3600000 mod 24)) @ '':''
       @ formatTwoDigits (Some ((now + tzdb zone now) div 60000 mod 60))"
proof -
  have g: "getZonedDate tzdb z zone now = Some (UTC z l)"
    by (simp add: getZonedDate_def Date_of_string_def Let_def p)
  have "LocalTime z (UTC z l) = l"
    by (simp add: LocalTime_def z) (simp add: UTC_def)
  then have "getHours z (UTC z l) = l div 3600000 mod 24"
      "getMinutes z (UTC z l) = l div 60000 mod 60"
    by (simp_all add: getHours_def getMinutes_def)
  then show ?thesis
    by (simp add: formatHhMm_def g zoned_fields [OF p])
qed

lemma invalid_format: "formatHhMm z None = ''NaN:NaN''"
  by (simp add: formatHhMm_def formatTwoDigits_def padStart_def)

subsection \<open>Samples\<close>

text \<open>
  A year of five digits in the zone gives a string that is no valid date-time: the
  \<open>Date\<close> is invalid and the clock of the second zone reads \<open>NaN:NaN\<close>.
\<close>

lemma far_civil: "civilFromDays 3672453 = (12024, 11, 1)"
  by code_simp

lemma far_year: "toString 12024 = ''12024''"
  by (simp add: toString_def digit_def)

lemma far_string: "isoString (localParts 317300000000000) = ''12024-11-01T16:53:20''"
  by (simp add: isoString_def localParts_def far_civil far_year twoDigit_def toString_def
      padStart_def digit_def)

lemma far_parse: "parseLocal ''12024-11-01T16:53:20'' = None"
  by (simp add: parseLocal_def)

lemma sample_strings:
  "isoString (localParts 1704099600000) = ''2024-01-01T09:00:00''"
  "isoString (localParts 1718454896000) = ''2024-06-15T12:34:56''"
  "isoString (localParts 1704071100000) = ''2024-01-01T01:05:00''"
  by code_simp+

lemma sample_parses:
  "parseLocal ''2024-01-01T09:00:00'' = Some 1704099600000"
  "parseLocal ''2024-06-15T12:34:56'' = Some 1718454896000"
  "parseLocal ''2024-01-01T01:05:00'' = Some 1704071100000"
  by code_simp+

lemma sample_tokyo:
  assumes t: "tzdb ''Asia/Tokyo'' 1704067200000 = 9 * 3600000"
    and z: "offsetAt z (UTC z 1704099600000) = offsetOfLocal z 1704099600000"
  shows "formatHhMm z (getZonedDate tzdb z ''Asia/Tokyo'' 1704067200000) = ''09:00''"
proof -
  have "parseLocal (isoString (formatToParts tzdb ''Asia/Tokyo'' 1704067200000)) = Some 1704099600000"
    by (simp add: formatToParts_def t sample_strings sample_parses)
  then have "formatHhMm z (getZonedDate tzdb z ''Asia/Tokyo'' 1704067200000)
     = formatTwoDigits (Some ((1704067200000 + tzdb ''Asia/Tokyo'' 1704067200000) div 3600000 mod 24)) @ '':''
       @ formatTwoDigits (Some ((1704067200000 + tzdb ''Asia/Tokyo'' 1704067200000) div 60000 mod 60))"
    using z by (rule zoned_format)
  then show ?thesis
    by (simp add: t formatTwoDigits_def padStart_def toString_def digit_def)
qed

lemma sample_utc:
  assumes t: "tzdb ''UTC'' 1718454896000 = 0"
    and z: "offsetAt z (UTC z 1718454896000) = offsetOfLocal z 1718454896000"
  shows "formatHhMm z (getZonedDate tzdb z ''UTC'' 1718454896000) = ''12:34''"
proof -
  have "parseLocal (isoString (formatToParts tzdb ''UTC'' 1718454896000)) = Some 1718454896000"
    by (simp add: formatToParts_def t sample_strings sample_parses)
  then have "formatHhMm z (getZonedDate tzdb z ''UTC'' 1718454896000)
     = formatTwoDigits (Some ((1718454896000 + tzdb ''UTC'' 1718454896000) div 3600000 mod 24)) @ '':''
       @ formatTwoDigits (Some ((1718454896000 + tzdb ''UTC'' 1718454896000) div 60000 mod 60))"
    using z by (rule zoned_format)
  then show ?thesis
    by (simp add: t formatTwoDigits_def padStart_def toString_def digit_def)
qed

lemma sample_dubai:
  assumes t: "tzdb ''Asia/Dubai'' 1704056700000 = 4 * 3600000"
    and z: "offsetAt z (UTC z 1704071100000) = offsetOfLocal z 1704071100000"
  shows "formatHhMm z (getZonedDate tzdb z ''Asia/Dubai'' 1704056700000) = ''01:05''"
proof -
  have "parseLocal (isoString (formatToParts tzdb ''Asia/Dubai'' 1704056700000)) = Some 1704071100000"
    by (simp add: formatToParts_def t sample_strings sample_parses)
  then have "formatHhMm z (getZonedDate tzdb z ''Asia/Dubai'' 1704056700000)
     = formatTwoDigits (Some ((1704056700000 + tzdb ''Asia/Dubai'' 1704056700000) div 3600000 mod 24)) @ '':''
       @ formatTwoDigits (Some ((1704056700000 + tzdb ''Asia/Dubai'' 1704056700000) div 60000 mod 60))"
    using z by (rule zoned_format)
  then show ?thesis
    by (simp add: t formatTwoDigits_def padStart_def toString_def digit_def)
qed

lemma far_year_invalid:
  "formatHhMm z (getZonedDate (\<lambda>zone t. 0) z ''UTC'' 317300000000000) = ''NaN:NaN''"
  by (simp add: getZonedDate_def Date_of_string_def formatToParts_def far_string far_parse
      invalid_format)

text \<open>
  Claim C7. Whenever the string that \<open>getZonedDate\<close> builds is a valid date-time (the
  year in the zone has four digits) and the clock of the host shows the local time of
  that string at the instant it is read as (the host does not skip that local time),
  \<open>getZonedDate\<close> followed by \<open>formatHhMm\<close> prints the hour and the minute of the wall
  clock of the target zone, as the time zone data gives them: two decimal digits each,
  zero-padded, around a colon. \<open>formatTwoDigits\<close> prints every number from 0 to 99 as
  its two decimal digits. For the samples: 2024-01-01T00:00:00Z in Asia/Tokyo, nine
  hours ahead of UTC, gives \<open>09:00\<close>; 2024-06-15T12:34:56Z in UTC gives \<open>12:34\<close>; and
  2023-12-31T21:05:00Z in Asia/Dubai, four hours ahead, gives \<open>01:05\<close>.
\<close>

theorem C7_zoned_time:
  "(parseLocal (isoString (formatToParts tzdb zone now)) = Some l
      \<and> offsetAt z (UTC z l) = offsetOfLocal z l \<longrightarrow>
    formatHhMm z (getZonedDate tzdb z zone now)
      = [''0123456789'' ! nat ((now + tzdb zone now) div 3600000 mod 24 div 10),
         ''0123456789'' ! nat ((now + tzdb zone now) div 3600000 mod 24 mod 10),
         CHR '':'',
         ''0123456789'' ! nat ((now + tzdb zone now) div 60000 mod 60 div 10),
         ''0123456789'' ! nat ((now + tzdb zone now) div 60000 mod 60 mod 10)])
   \<and> (0 \<le> n \<and> n < 100 \<longrightarrow>
        formatTwoDigits (Some n) = [''0123456789'' ! nat (n div 10), ''0123456789'' ! nat (n mod 10)])
   \<and> (tzdb ''Asia/Tokyo'' 1704067200000 = 9 * 3600000
        \<and> offsetAt z (UTC z 1704099600000) = offsetOfLocal z 1704099600000 \<longrightarrow>
      formatHhMm z (getZonedDate tzdb z ''Asia/Tokyo'' 1704067200000) = ''09:00'')
   \<and> (tzdb ''UTC'' 1718454896000 = 0
        \<and> offsetAt z (UTC z 1718454896000) = offsetOfLocal z 1718454896000 \<longrightarrow>
      formatHhMm z (getZonedDate tzdb z ''UTC'' 1718454896000) = ''12:34'')
   \<and> (tzdb ''Asia/Dubai'' 1704056700000 = 4 * 3600000
        \<and> offsetAt z (UTC z 1704071100000) = offsetOfLocal z 1704071100000 \<longrightarrow>
      formatHhMm z (getZonedDate tzdb z ''Asia/Dubai'' 1704056700000) = ''01:05'')"
proof (intro conjI impI)
  assume a: "parseLocal (isoString (formatToParts tzdb zone now)) = Some l
      \<and> offsetAt z (UTC z l) = offsetOfLocal z l"
  let ?h = "(now + tzdb zone now) div 3600000 mod 24"
  let ?m = "(now + tzdb zone now) div 60000 mod 60"
  have "formatHhMm z (getZonedDate tzdb z zone now)
      = formatTwoDigits (Some ?h) @ '':'' @ formatTwoDigits (Some ?m)"
    using a by (intro zoned_format [of tzdb zone now l z]) simp_all
  moreover have "formatTwoDigits (Some ?h) = [''0123456789'' ! nat (?h div 10), ''0123456789'' ! nat (?h mod 10)]"
    by (rule formatTwoDigits_digits) simp_all
  moreover have "formatTwoDigits (Some ?m) = [''0123456789'' ! nat (?m div 10), ''0123456789'' ! nat (?m mod 10)]"
    by (rule formatTwoDigits_digits) simp_all
  ultimately show "formatHhMm z (getZonedDate tzdb z zone now)
      = [''0123456789'' ! nat (?h div 10), ''0123456789'' ! nat (?h mod 10), CHR '':'',
         ''0123456789'' ! nat (?m div 10), ''0123456789'' ! nat (?m mod 10)]"
    by simp
next
  assume "0 \<le> n \<and> n < 100"
  then show "formatTwoDigits (Some n) = [''0123456789'' ! nat (n div 10), ''0123456789'' ! nat (n mod 10)]"
    by (intro formatTwoDigits_digits) simp_all
next
  assume "tzdb ''Asia/Tokyo'' 1704067200000 = 9 * 3600000
        \<and> offsetAt z (UTC z 1704099600000) = offsetOfLocal z 1704099600000"
  then show "formatHhMm z (getZonedDate tzdb z ''Asia/Tokyo'' 1704067200000) = ''09:00''"
    by (intro sample_tokyo) simp_all
next
  assume "tzdb ''UTC'' 1718454896000 = 0
        \<and> offsetAt z (UTC z 1718454896000) = offsetOfLocal z 1718454896000"
  then show "formatHhMm z (getZonedDate tzdb z ''UTC'' 1718454896000) = ''12:34''"
    by (intro sample_utc) simp_all
next
  assume "tzdb ''Asia/Dubai'' 1704056700000 = 4 * 3600000
        \<and> offsetAt z (UTC z 1704071100000) = offsetOfLocal z 1704071100000"
  then show "formatHhMm z (getZonedDate tzdb z ''Asia/Dubai'' 1704056700000) = ''01:05''"
    by (intro sample_dubai) simp_all
qed

text \<open>
  The hypotheses of C7 hold of time zone data that has Asia/Tokyo at nine hours,
  Asia/Dubai at four and UTC at none, on a host that is always one hour east of UTC.
\<close>

theorem C7_zoned_time_witness:
  "parseLocal (isoString (formatToParts
       (\<lambda>zone t. if zone = ''Asia/Tokyo'' then 32400000 else if zone = ''Asia/Dubai'' then 14400000 else 0)
       ''Asia/Tokyo'' 1704067200000)) = Some 1704099600000
   \<and> offsetAt (fixedZone 3600000) (UTC (fixedZone 3600000) 1704099600000)
       = offsetOfLocal (fixedZone 3600000) 1704099600000
   \<and> (0::int) \<le> 7 \<and> (7::int) < 100
   \<and> formatTwoDigits (Some 7) = ''07''
   \<and> (\<lambda>zone t. if zone = ''Asia/Tokyo'' then 32400000 else if zone = ''Asia/Dubai'' then 14400000 else 0)
        ''Asia/Tokyo'' 1704067200000 = (9 * 3600000 :: int)
   \<and> formatHhMm (fixedZone 3600000) (getZonedDate
       (\<lambda>zone t. if zone = ''Asia/Tokyo'' then 32400000 else if zone = ''Asia/Dubai'' then 14400000 else 0)
       (fixedZone 3600000) ''Asia/Tokyo'' 1704067200000) = ''09:00''
   \<and> formatHhMm (fixedZone 3600000) (getZonedDate
       (\<lambda>zone t. if zone = ''Asia/Tokyo'' then 32400000 else if zone = ''Asia/Dubai'' then 14400000 else 0)
       (fixedZone 3600000) ''UTC'' 1718454896000) = ''12:34''
   \<and> formatHhMm (fixedZone 3600000) (getZonedDate
       (\<lambda>zone t. if zone = ''Asia/Tokyo'' then 32400000 else if zone = ''Asia/Dubai'' then 14400000 else 0)
       (fixedZone 3600000) ''Asia/Dubai'' 1704056700000) = ''01:05''"
proof -
  have p: "parseLocal (isoString (formatToParts
       (\<lambda>zone t. if zone = ''Asia/Tokyo'' then 32400000 else if zone = ''Asia/Dubai'' then 14400000 else 0)
       ''Asia/Tokyo'' 1704067200000)) = Some 1704099600000"
    by (simp add: formatToParts_def sample_strings sample_parses)
  have z: "offsetAt (fixedZone 3600000) (UTC (fixedZone 3600000) l) = offsetOfLocal (fixedZone 3600000) l" for l
    by (simp add: fixedZone_def)
  show ?thesis
    using C7_zoned_time [of "\<lambda>zone t. if zone = ''Asia/Tokyo'' then 32400000 else if zone = ''Asia/Dubai'' then 14400000 else 0"
        "''Asia/Tokyo''" 1704067200000 1704099600000 "fixedZone 3600000" 7]
    by (simp add: p z)
qed

section \<open>Properties of the weather snapshot\<close>

lemma spread_id: "spread d = d"
  by (simp add: spread_def)

lemma catch_id: "fetchWeather_catch cancelled d = d"
  by (simp add: fetchWeather_catch_def spread_id)

lemma numberAt_eq: "numberOrNull (optProp (optProp (Some j) outer) inner) = numberAt outer inner j"
  by (cases j) (auto simp add: numberOrNull_def optProp_def split: option.splits json.splits)

lemma firstAt_eq: "optIndex0 (optProp (optProp (Some j) outer) inner) = firstAt outer inner j"
  by (cases j) (auto simp add: optIndex0_def optProp_def split: option.splits json.splits list.splits)

lemma truthy_falsy: "truthy (Some v) = (\<not> falsy v)"
  by (cases v) (simp_all add: truthy_def)

lemma dateOrNull_eq:
  "dateOrNull v = (case dateAt v of None \<Rightarrow> Inl TypeError | Some r \<Rightarrow> Inr r)"
proof (cases v)
  case None
  then show ?thesis by (simp add: dateOrNull_def truthy_def)
next
  case (Some x)
  then show ?thesis by (simp add: dateOrNull_def truthy_falsy)
qed

lemma fetchWeather_payload:
  "fetchWeather False (Response True (Some j)) d
     = (case payloadSnapshot j of None \<Rightarrow> d | Some s \<Rightarrow> s)"
  by (simp add: fetchWeather_def Let_def numberAt_eq firstAt_eq dateOrNull_eq payloadSnapshot_def
        catch_id split: option.split)

text \<open>
  Claim C1 as stated fails. A response with status OK whose body is the JSON object
  \<open>{}\<close> is a payload without the expected fields: \<open>res.json()\<close> resolves, nothing is
  thrown, and a snapshot that held valid data is replaced by one whose four fields are
  all unknown. A body with the temperature alone sets the temperature and resets the
  other three fields.
\<close>

theorem C1_snapshot_reverts_counterexample:
  "fetchWeather False (Response True (Some (JObj [])))
     \<lparr>temperatureC = Some 18.4, weatherCode = Some 3,
        sunrise = Some (NewDate (JStr ''2024-06-01T04:45'')),
        sunset = Some (NewDate (JStr ''2024-06-01T20:15''))\<rparr>
   = \<lparr>temperatureC = None, weatherCode = None, sunrise = None, sunset = None\<rparr>
   \<and> fetchWeather False (Response True (Some (JObj [])))
     \<lparr>temperatureC = Some 18.4, weatherCode = Some 3,
        sunrise = Some (NewDate (JStr ''2024-06-01T04:45'')),
        sunset = Some (NewDate (JStr ''2024-06-01T20:15''))\<rparr>
   \<noteq> \<lparr>temperatureC = Some 18.4, weatherCode = Some 3,
        sunrise = Some (NewDate (JStr ''2024-06-01T04:45'')),
        sunset = Some (NewDate (JStr ''2024-06-01T20:15''))\<rparr>
   \<and> fetchWeather False
        (Response True (Some (JObj [(''current'', JObj [(''temperature_2m'', JNum 20)])])))
     \<lparr>temperatureC = Some 18.4, weatherCode = Some 3,
        sunrise = Some (NewDate (JStr ''2024-06-01T04:45'')),
        sunset = Some (NewDate (JStr ''2024-06-01T20:15''))\<rparr>
   = \<lparr>temperatureC = Some 20, weatherCode = None, sunrise = None, sunset = None\<rparr>"
  by (simp add: fetchWeather_def optProp_def optIndex0_def numberOrNull_def dateOrNull_def
        truthy_def)

text \<open>
  Claim C1, amended. When the request throws (\<open>fetch\<close> rejects, the status is not OK,
  the body is not JSON, or building the \<open>Date\<close> of sunrise or sunset throws) the
  snapshot is unchanged, field for field; so it is when the effect was cancelled.
  Otherwise all four fields are replaced together from the one payload, and no field of
  the old snapshot is carried over: the temperature and the weather code are the
  numbers under \<open>current\<close>, unknown when the payload has no number there; sunrise and
  sunset are built from the first entries under \<open>daily\<close>, unknown when the payload has
  no truthy entry there. The payload of the weather service with 18.4 degrees, code 3
  and both times gives exactly these four values; a payload whose first sunrise is an
  object with a \<open>toString\<close> of its own, or whose first sunset is an array that holds
  one, leaves the snapshot as it was; an empty object as first sunrise becomes a
  \<open>Date\<close>, and an empty string as first sunset is unknown.
\<close>

theorem C1_snapshot_all_or_nothing:
  "fetchWeather cancelled Rejected d = d
   \<and> fetchWeather cancelled (Response False body) d = d
   \<and> fetchWeather cancelled (Response True None) d = d
   \<and> fetchWeather True r d = d
   \<and> fetchWeather False (Response True (Some j)) d
       = (case payloadSnapshot j of None \<Rightarrow> d | Some s \<Rightarrow> s)
   \<and> fetchWeather False
        (Response True (Some (JObj
           [(''current'', JObj [(''temperature_2m'', JNum 18.4), (''weather_code'', JNum 3)]),
            (''daily'', JObj [(''sunrise'', JArr [JStr ''2024-06-01T04:45:00Z'']),
                              (''sunset'', JArr [JStr ''2024-06-01T20:15:00Z''])])]))) d
       = \<lparr>temperatureC = Some 18.4, weatherCode = Some 3,
           sunrise = Some (NewDate (JStr ''2024-06-01T04:45:00Z'')),
           sunset = Some (NewDate (JStr ''2024-06-01T20:15:00Z''))\<rparr>
   \<and> fetchWeather False
        (Response True (Some (JObj
           [(''current'', JObj [(''temperature_2m'', JNum 18.4), (''weather_code'', JNum 3)]),
            (''daily'', JObj [(''sunrise'', JArr [JObj [(''toString'', JNum 0)]])])]))) d
       = d
   \<and> fetchWeather False
        (Response True (Some (JObj
           [(''daily'', JObj [(''sunset'', JArr [JArr [JNum 1, JObj [(''toString'', JNull)]]])])]))) d
       = d
   \<and> fetchWeather False
        (Response True (Some (JObj
           [(''daily'', JObj [(''sunrise'', JArr [JObj []]), (''sunset'', JArr [JStr []])])]))) d
       = \<lparr>temperatureC = None, weatherCode = None,
           sunrise = Some (NewDate (JObj [])), sunset = None\<rparr>"
proof (intro conjI)
  show "fetchWeather cancelled Rejected d = d"
    by (simp add: fetchWeather_def catch_id)
  show "fetchWeather cancelled (Response False body) d = d"
    by (simp add: fetchWeather_def catch_id)
  show "fetchWeather cancelled (Response True None) d = d"
    by (simp add: fetchWeather_def catch_id)
  show "fetchWeather True r d = d"
    by (simp add: fetchWeather_def catch_id Let_def split: fetch_result.split option.split sum.split)
  show "fetchWeather False (Response True (Some j)) d
       = (case payloadSnapshot j of None \<Rightarrow> d | Some s \<Rightarrow> s)"
    by (rule fetchWeather_payload)
  show "fetchWeather False
        (Response True (Some (JObj
           [(''current'', JObj [(''temperature_2m'', JNum 18.4), (''weather_code'', JNum 3)]),
            (''daily'', JObj [(''sunrise'', JArr [JStr ''2024-06-01T04:45:00Z'']),
                              (''sunset'', JArr [JStr ''2024-06-01T20:15:00Z''])])]))) d
       = \<lparr>temperatureC = Some 18.4, weatherCode = Some 3,
           sunrise = Some (NewDate (JStr ''2024-06-01T04:45:00Z'')),
           sunset = Some (NewDate (JStr ''2024-06-01T20:15:00Z''))\<rparr>"
    by (simp add: fetchWeather_def optProp_def optIndex0_def numberOrNull_def dateOrNull_def
        truthy_def)
  show "fetchWeather False
        (Response True (Some (JObj
           [(''current'', JObj [(''temperature_2m'', JNum 18.4), (''weather_code'', JNum 3)]),
            (''daily'', JObj [(''sunrise'', JArr [JObj [(''toString'', JNum 0)]])])]))) d
       = d"
    by (simp add: fetchWeather_def optProp_def optIndex0_def numberOrNull_def dateOrNull_def
        truthy_def catch_id)
  show "fetchWeather False
        (Response True (Some (JObj
           [(''daily'', JObj [(''sunset'', JArr [JArr [JNum 1, JObj [(''toString'', JNull)]]])])]))) d
       = d"
    by (simp add: fetchWeather_def optProp_def optIndex0_def numberOrNull_def dateOrNull_def
        truthy_def catch_id)
  show "fetchWeather False
        (Response True (Some (JObj
           [(''daily'', JObj [(''sunrise'', JArr [JObj []]), (''sunset'', JArr [JStr []])])]))) d
       = \<lparr>temperatureC = None, weatherCode = None,
           sunrise = Some (NewDate (JObj [])), sunset = None\<rparr>"
    by (simp add: fetchWeather_def optProp_def optIndex0_def numberOrNull_def dateOrNull_def
        truthy_def)
qed

section \<open>Properties of the requests\<close>

lemma effectRuns_enumerate:
  "(case prev of None \<Rightarrow> True | Some p \<Rightarrow> fst p < n) \<Longrightarrow>
   effectRuns prev (enumerate n ts) = enumerate n ts"
proof (induction ts arbitrary: prev n)
  case Nil
  then show ?case by simp
next
  case (Cons t ts)
  have "effectRuns (Some (n, t)) (enumerate (Suc n) ts) = enumerate (Suc n) ts"
    by (rule Cons.IH) simp
  then show ?case
    using Cons.prems by (auto split: option.splits)
qed

text \<open>
  Claim C4 as stated fails. Two ticks one second apart, in the same minute, issue a
  request each.
\<close>

theorem C4_two_requests_counterexample:
  "sameMinute 0 1000
   \<and> useWeather_requests noGeolocation (useNow [0, 1000])
       = [(0, 51.5074, - 0.1278), (1000, 51.5074, - 0.1278)]
   \<and> \<not> length (useWeather_requests noGeolocation (useNow [0, 1000])) \<le> 1"
  by (simp add: useWeather_requests_def useNow_def sameMinute_def requestCoordinates_def
        noGeolocation_def)

text \<open>
  Claim C4, amended. The fetcher issues one request per tick of the clock: every tick
  brings a new \<open>Date\<close> object, the effect runs again, and the requests are as many as the
  ticks and at the instants of the ticks.
\<close>

theorem C4_one_request_per_tick:
  "length (useWeather_requests geo (useNow ts)) = length ts
   \<and> map fst (useWeather_requests geo (useNow ts)) = ts"
proof -
  have "effectRuns None (enumerate 0 ts) = enumerate 0 ts"
    by (rule effectRuns_enumerate) simp
  then show ?thesis
    by (simp add: useWeather_requests_def useNow_def comp_def map_snd_enumerate)
qed

section \<open>Properties of the steps\<close>

subsection \<open>Square roots and sines\<close>

lemma sqrt3_bounds: "1.732 \<le> sqrt 3 \<and> sqrt 3 \<le> 1.7321"
proof
  show "1.732 \<le> sqrt 3" by (rule real_le_rsqrt) (simp add: power2_eq_square)
  show "sqrt 3 \<le> 1.7321" by (rule real_le_lsqrt) (simp_all add: power2_eq_square)
qed

lemma sqrt2_bounds: "1 \<le> sqrt 2 \<and> sqrt 2 \<le> 1.46"
proof
  show "1 \<le> sqrt 2" by (rule real_le_rsqrt) (simp add: power2_eq_square)
  show "sqrt 2 \<le> 1.46" by (rule real_le_lsqrt) (simp_all add: power2_eq_square)
qed

lemma sin15_sq: "(sin (pi / 12))\<^sup>2 = (2 - sqrt 3) / 4"
proof -
  have "cos (2 * (pi / 12)) = 1 - 2 * (sin (pi / 12))\<^sup>2"
    by (rule cos_double_sin)
  moreover have "2 * (pi / 12) = pi / 6" by simp
  ultimately have "sqrt 3 / 2 = 1 - 2 * (sin (pi / 12))\<^sup>2"
    by (simp add: cos_30)
  then show ?thesis by (simp add: field_simps)
qed

lemma sin15_nonneg: "0 \<le> sin (pi / 12)"
  by (rule sin_ge_zero) (use pi_gt_zero in simp_all)

lemma sin15_upper: "sin (pi / 12) \<le> 0.26"
proof (rule power2_le_imp_le)
  have "(2 - sqrt 3) / 4 \<le> (0.26::real)\<^sup>2"
    using sqrt3_bounds by (simp add: power2_eq_square)
  then show "(sin (pi / 12))\<^sup>2 \<le> (0.26::real)\<^sup>2"
    by (simp only: sin15_sq)
  show "(0::real) \<le> 0.26" by simp
qed

lemma sin15_lower: "0.25 \<le> sin (pi / 12)"
proof (rule power2_le_imp_le)
  have "(0.25::real)\<^sup>2 \<le> (2 - sqrt 3) / 4"
    using sqrt3_bounds by (simp add: power2_eq_square)
  then show "(0.25::real)\<^sup>2 \<le> (sin (pi / 12))\<^sup>2"
    by (simp only: sin15_sq)
  show "0 \<le> sin (pi / 12)" by (rule sin15_nonneg)
qed

lemma cos15_lower: "0.9 \<le> cos (pi / 12)"
proof (rule power2_le_imp_le)
  have "(cos (pi / 12))\<^sup>2 = 1 - (2 - sqrt 3) / 4"
    by (simp only: cos_squared_eq sin15_sq)
  moreover have "(0.9::real)\<^sup>2 \<le> 1 - (2 - sqrt 3) / 4"
    using sqrt3_bounds by (simp add: power2_eq_square)
  ultimately show "(0.9::real)\<^sup>2 \<le> (cos (pi / 12))\<^sup>2" by simp
  show "0 \<le> cos (pi / 12)"
    by (rule cos_ge_zero) (use pi_gt_zero in simp_all)
qed

text \<open>The sine of the circadian term at the hours from 14 to 23.\<close>

lemma circ_16: "sin (real_of_int (16 - 6) / 24 * pi * 2) = 1 / 2"
proof -
  have "real_of_int (16 - 6) / 24 * pi * 2 = pi - pi / 6" by simp
  then show ?thesis by (simp only: sin_pi_minus sin_30)
qed

lemma circ_18: "sin (real_of_int (18 - 6) / 24 * pi * 2) = 0"
  by simp

lemma circ_15: "sin (real_of_int (15 - 6) / 24 * pi * 2) = sqrt 2 / 2"
proof -
  have "real_of_int (15 - 6) / 24 * pi * 2 = pi - pi / 4" by simp
  then show ?thesis by (simp only: sin_pi_minus sin_45)
qed

lemma circ_17: "sin (real_of_int (17 - 6) / 24 * pi * 2) = sin (pi / 12)"
proof -
  have "real_of_int (17 - 6) / 24 * pi * 2 = pi - pi / 12" by simp
  then show ?thesis by (simp only: sin_pi_minus)
qed

lemma circ_19: "sin (real_of_int (19 - 6) / 24 * pi * 2) = - sin (pi / 12)"
proof -
  have "real_of_int (19 - 6) / 24 * pi * 2 = pi / 12 + pi" by simp
  then show ?thesis by (simp only: sin_periodic_pi)
qed

lemma circ_20: "sin (real_of_int (20 - 6) / 24 * pi * 2) = - (1 / 2)"
proof -
  have "real_of_int (20 - 6) / 24 * pi * 2 = pi / 6 + pi" by simp
  then show ?thesis by (simp only: sin_periodic_pi sin_30)
qed

lemma circ_21: "sin (real_of_int (21 - 6) / 24 * pi * 2) = - (sqrt 2 / 2)"
proof -
  have "real_of_int (21 - 6) / 24 * pi * 2 = pi / 4 + pi" by simp
  then show ?thesis by (simp only: sin_periodic_pi sin_45)
qed

lemma circ_22: "sin (real_of_int (22 - 6) / 24 * pi * 2) = - (sqrt 3 / 2)"
proof -
  have "real_of_int (22 - 6) / 24 * pi * 2 = pi / 3 + pi" by simp
  then show ?thesis by (simp only: sin_periodic_pi sin_60)
qed

lemma circ_23: "sin (real_of_int (23 - 6) / 24 * pi * 2) = - cos (pi / 12)"
proof -
  have "real_of_int (23 - 6) / 24 * pi * 2 = (pi / 2 - pi / 12) + pi" by simp
  then have "sin (real_of_int (23 - 6) / 24 * pi * 2) = - sin (pi / 2 - pi / 12)"
    by (simp only: sin_periodic_pi)
  also have "sin (pi / 2 - pi / 12) = cos (pi / 12)"
    using cos_sin_eq [of "pi / 12"] by simp
  finally show ?thesis .
qed

lemma circ_14: "sin (real_of_int (14 - 6) / 24 * pi * 2) = sqrt 3 / 2"
proof -
  have "real_of_int (14 - 6) / 24 * pi * 2 = pi - pi / 3" by simp
  then show ?thesis by (simp only: sin_pi_minus sin_60)
qed

subsection \<open>The fraction of the goal\<close>

lemma hours_range: "0 \<le> getHours z now \<and> getHours z now < 24"
  by (simp add: getHours_def)

lemma elapsed_hours:
  "3600000 * getHours z now \<le> LocalTime z now mod 86400000
   \<and> LocalTime z now mod 86400000 < 3600000 * (getHours z now + 1)"
proof -
  let ?x = "LocalTime z now"
  have "?x mod (3600000 * 24) = 3600000 * (?x div 3600000 mod 24) + ?x mod 3600000"
    by (rule zmod_zmult2_eq) simp
  moreover have "0 \<le> ?x mod 3600000 \<and> ?x mod 3600000 < 3600000"
    by simp
  ultimately show ?thesis
    by (simp add: getHours_def)
qed

lemma elapsed_setBack:
  "now - setHours0 z now = LocalTime z now mod 86400000 + setBack z now"
  by (simp add: setBack_def)

lemma setBack_offsets:
  "setBack z now
     = offsetOfLocal z (LocalTime z now - LocalTime z now mod 86400000) - offsetAt z now"
  by (simp add: setBack_def setHours0_def UTC_def LocalTime_def Let_def)

lemma setBack_fixedZone: "setBack (fixedZone tz) now = 0"
  by (simp add: setBack_offsets fixedZone_def)

lemma dayProgress_nonneg: "0 \<le> clamp x 0 1"
  by (simp add: clamp_def)

lemma dayProgress_less:
  fixes e E :: int
  assumes "e < E" "0 < E"
  shows "clamp (real_of_int e / (24 * 3600 * 1000)) 0 1 < real_of_int E / 86400000"
proof -
  have "real_of_int e < real_of_int E"
    using assms(1) by (simp only: of_int_less_iff)
  then have "real_of_int e / 86400000 < real_of_int E / 86400000"
    by simp
  moreover have "0 < real_of_int E / 86400000"
    using assms(2) by simp
  ultimately have "max 0 (real_of_int e / 86400000) < real_of_int E / 86400000"
    by simp
  then show ?thesis
    by (simp add: clamp_def)
qed

lemma steps_fraction:
  "useSimulatedSteps z now = clamp (Math_round (10000 * stepsFraction z now)) 0 10000"
  by (simp add: useSimulatedSteps_def stepsFraction_def Let_def mult.assoc)

lemma weighted_bound:
  fixes p P s u B :: real
  assumes "0 \<le> p" "p < P" "s \<le> u" "- 1 \<le> s" "P * (1 + 0.3 * u) \<le> B"
  shows "p * (0.7 + 0.6 * (0.5 + 0.5 * s)) < B"
proof -
  have w: "0.7 + 0.6 * (0.5 + 0.5 * s) = 1 + 0.3 * s" by (simp add: algebra_simps)
  have "p * (1 + 0.3 * s) \<le> p * (1 + 0.3 * u)"
    using assms(1,3) by (intro mult_left_mono) simp_all
  also have "\<dots> < P * (1 + 0.3 * u)"
    using assms(2,3,4) by (intro mult_strict_right_mono) simp_all
  also have "\<dots> \<le> B" by (rule assms(5))
  finally show ?thesis by (simp only: w)
qed

text \<open>
  The bound for one hour of the clock: with the clock set back by at most \<open>S\<close>, the
  elapsed time is below \<open>h + 1\<close> hours plus \<open>S\<close>.
\<close>

lemma elapsed_less:
  assumes h: "getHours z now \<le> h" and sb: "setBack z now \<le> S"
  shows "now - setHours0 z now < 3600000 * (h + 1) + S"
proof -
  have "LocalTime z now mod 86400000 < 3600000 * (getHours z now + 1)"
    using elapsed_hours [of z now] by (rule conjunct2)
  moreover have "3600000 * (getHours z now + 1) \<le> 3600000 * (h + 1)"
    using h by simp
  ultimately have "LocalTime z now mod 86400000 + setBack z now < 3600000 * (h + 1) + S"
    using sb by (rule less_le_trans [THEN add_less_le_mono])
  then show ?thesis
    by (simp only: elapsed_setBack)
qed

lemma fraction_up_to_hour:
  assumes h: "getHours z now \<le> h"
    and sb: "setBack z now \<le> S"
    and pos: "0 < 3600000 * (h + 1) + S"
    and s: "sin (real_of_int (getHours z now - 6) / 24 * pi * 2) \<le> u"
    and B: "real_of_int (3600000 * (h + 1) + S) / 86400000 * (1 + 0.3 * u) \<le> B"
  shows "stepsFraction z now < B"
proof -
  let ?p = "clamp (real_of_int (now - setHours0 z now) / (24 * 3600 * 1000)) 0 1"
  have "now - setHours0 z now < 3600000 * (h + 1) + S"
    using h sb by (rule elapsed_less)
  then have "?p < real_of_int (3600000 * (h + 1) + S) / 86400000"
    using pos by (rule dayProgress_less)
  moreover have "0 \<le> ?p" by (rule dayProgress_nonneg)
  moreover have "- 1 \<le> sin (real_of_int (getHours z now - 6) / 24 * pi * 2)"
    by (rule sin_ge_minus_one)
  ultimately have "?p * (0.7 + 0.6 * (0.5 + 0.5 * sin (real_of_int (getHours z now - 6) / 24 * pi * 2))) < B"
    using s B by (intro weighted_bound [where u = u and P = "real_of_int (3600000 * (h + 1) + S) / 86400000"])
  then show ?thesis
    by (simp only: stepsFraction_def)
qed

lemma fraction_at_hour:
  assumes h: "getHours z now = h"
    and s: "sin (real_of_int (h - 6) / 24 * pi * 2) \<le> u"
    and sb: "setBack z now \<le> S"
    and pos: "0 < 3600000 * (h + 1) + S"
    and B: "real_of_int (3600000 * (h + 1) + S) / 86400000 * (1 + 0.3 * u) \<le> B"
  shows "stepsFraction z now < B"
proof -
  have "getHours z now \<le> h" using h by simp
  moreover have "sin (real_of_int (getHours z now - 6) / 24 * pi * 2) \<le> u"
    using s by (simp only: h)
  ultimately show ?thesis
    using sb pos B by (intro fraction_up_to_hour [where h = h and S = S and u = u])
qed

text \<open>Upper bounds of the sine of the circadian term at the hours from 15 to 23.\<close>

lemma circ_bounds:
  "sin (real_of_int (15 - 6) / 24 * pi * 2) \<le> 0.73"
  "sin (real_of_int (16 - 6) / 24 * pi * 2) \<le> 1 / 2"
  "sin (real_of_int (17 - 6) / 24 * pi * 2) \<le> 0.26"
  "sin (real_of_int (18 - 6) / 24 * pi * 2) \<le> 0"
  "sin (real_of_int (19 - 6) / 24 * pi * 2) \<le> - 0.25"
  "sin (real_of_int (20 - 6) / 24 * pi * 2) \<le> - 0.5"
  "sin (real_of_int (21 - 6) / 24 * pi * 2) \<le> - 0.5"
  "sin (real_of_int (22 - 6) / 24 * pi * 2) \<le> - 0.85"
  "sin (real_of_int (23 - 6) / 24 * pi * 2) \<le> - 0.9"
proof -
  show "sin (real_of_int (15 - 6) / 24 * pi * 2) \<le> 0.73"
    using sqrt2_bounds unfolding circ_15 by simp
  show "sin (real_of_int (16 - 6) / 24 * pi * 2) \<le> 1 / 2"
    unfolding circ_16 by simp
  show "sin (real_of_int (17 - 6) / 24 * pi * 2) \<le> 0.26"
    using sin15_upper unfolding circ_17 by simp
  show "sin (real_of_int (18 - 6) / 24 * pi * 2) \<le> 0"
    unfolding circ_18 by simp
  show "sin (real_of_int (19 - 6) / 24 * pi * 2) \<le> - 0.25"
    using sin15_lower unfolding circ_19 by simp
  show "sin (real_of_int (20 - 6) / 24 * pi * 2) \<le> - 0.5"
    unfolding circ_20 by simp
  show "sin (real_of_int (21 - 6) / 24 * pi * 2) \<le> - 0.5"
    using sqrt2_bounds unfolding circ_21 by simp
  show "sin (real_of_int (22 - 6) / 24 * pi * 2) \<le> - 0.85"
    using sqrt3_bounds unfolding circ_22 by simp
  show "sin (real_of_int (23 - 6) / 24 * pi * 2) \<le> - 0.9"
    using cos15_lower unfolding circ_23 by simp
qed

lemma hour_cases:
  obtains "getHours z now \<le> 14" | "getHours z now = 15" | "getHours z now = 16"
    | "getHours z now = 17" | "getHours z now = 18" | "getHours z now = 19"
    | "getHours z now = 20" | "getHours z now = 21" | "getHours z now = 22"
    | "getHours z now = 23"
proof -
  have "getHours z now < 24" using hours_range [of z now] by simp
  then have "getHours z now \<le> 14 \<or> getHours z now = 15 \<or> getHours z now = 16
    \<or> getHours z now = 17 \<or> getHours z now = 18 \<or> getHours z now = 19
    \<or> getHours z now = 20 \<or> getHours z now = 21 \<or> getHours z now = 22
    \<or> getHours z now = 23"
    by linarith
  then show ?thesis
    using that by blast
qed

text \<open>No set-back: the fraction stays below 391/480.\<close>

lemma fraction_bound_plain:
  assumes sb: "setBack z now \<le> 0"
  shows "stepsFraction z now < 391 / 480"
proof (cases rule: hour_cases [of z now])
  case 1
  then show ?thesis
    using sb by (rule fraction_up_to_hour [where u = 1]) simp_all
next
  case 2
  then show ?thesis
    using circ_bounds(1) sb by (rule fraction_at_hour) simp_all
next
  case 3
  then show ?thesis
    using circ_bounds(2) sb by (rule fraction_at_hour) simp_all
next
  case 4
  then show ?thesis
    using circ_bounds(3) sb by (rule fraction_at_hour) simp_all
next
  case 5
  then show ?thesis
    using circ_bounds(4) sb by (rule fraction_at_hour) simp_all
next
  case 6
  then show ?thesis
    using circ_bounds(5) sb by (rule fraction_at_hour) simp_all
next
  case 7
  then show ?thesis
    using circ_bounds(6) sb by (rule fraction_at_hour) simp_all
next
  case 8
  then show ?thesis
    using circ_bounds(7) sb by (rule fraction_at_hour) simp_all
next
  case 9
  then show ?thesis
    using circ_bounds(8) sb by (rule fraction_at_hour) simp_all
next
  case 10
  then show ?thesis
    using circ_bounds(9) sb by (rule fraction_at_hour) simp_all
qed

text \<open>A set-back of at most three hours: the fraction stays below 39/40.\<close>

lemma fraction_bound_setBack:
  assumes sb: "setBack z now \<le> 10800000"
  shows "stepsFraction z now < 39 / 40"
proof (cases rule: hour_cases [of z now])
  case 1
  then show ?thesis
    using sb by (rule fraction_up_to_hour [where u = 1]) simp_all
next
  case 2
  then show ?thesis
    using circ_bounds(1) sb by (rule fraction_at_hour) simp_all
next
  case 3
  then show ?thesis
    using circ_bounds(2) sb by (rule fraction_at_hour) simp_all
next
  case 4
  then show ?thesis
    using circ_bounds(3) sb by (rule fraction_at_hour) simp_all
next
  case 5
  then show ?thesis
    using circ_bounds(4) sb by (rule fraction_at_hour) simp_all
next
  case 6
  then show ?thesis
    using circ_bounds(5) sb by (rule fraction_at_hour) simp_all
next
  case 7
  then show ?thesis
    using circ_bounds(6) sb by (rule fraction_at_hour) simp_all
next
  case 8
  then show ?thesis
    using circ_bounds(7) sb by (rule fraction_at_hour) simp_all
next
  case 9
  then show ?thesis
    using circ_bounds(8) sb by (rule fraction_at_hour) simp_all
next
  case 10
  then show ?thesis
    using circ_bounds(9) sb by (rule fraction_at_hour) simp_all
qed

lemma weight_nonneg:
  fixes s :: real
  assumes "- 1 \<le> s"
  shows "0 \<le> 0.7 + 0.6 * (0.5 + 0.5 * s)"
proof -
  have "0.7 + 0.6 * (0.5 + 0.5 * s) = 1 + 0.3 * s"
    by (simp add: algebra_simps)
  moreover have "0 \<le> 1 + 0.3 * s"
    using assms by simp
  ultimately show ?thesis by simp
qed

lemma fraction_nonneg: "0 \<le> stepsFraction z now"
proof -
  have "- 1 \<le> sin (real_of_int (getHours z now - 6) / 24 * pi * 2)"
    by (rule sin_ge_minus_one)
  then have "0 \<le> 0.7 + 0.6 * (0.5 + 0.5 * sin (real_of_int (getHours z now - 6) / 24 * pi * 2))"
    by (rule weight_nonneg)
  moreover have "0 \<le> clamp (real_of_int (now - setHours0 z now) / (24 * 3600 * 1000)) 0 1"
    by (rule dayProgress_nonneg)
  ultimately show ?thesis
    by (simp only: stepsFraction_def mult_nonneg_nonneg)
qed

lemma Math_round_mono: "x \<le> y \<Longrightarrow> Math_round x \<le> Math_round y"
  by (simp add: Math_round_def floor_mono)

lemma clamp_mono: "x \<le> y \<Longrightarrow> clamp x mn mx \<le> clamp y mn mx"
  by (auto simp add: clamp_def min_def max_def)

lemma Math_round_9750: "Math_round 9750 = 9750"
  by (simp add: Math_round_def)

lemma steps_unclamped:
  assumes "stepsFraction z now < 39 / 40"
  shows "useSimulatedSteps z now = Math_round (10000 * stepsFraction z now)
   \<and> useSimulatedSteps z now \<le> 9750"
proof -
  let ?r = "Math_round (10000 * stepsFraction z now)"
  have "10000 * stepsFraction z now \<le> 9750"
    using assms by simp
  then have "?r \<le> Math_round 9750"
    by (rule Math_round_mono)
  then have up: "?r \<le> 9750"
    by (simp only: Math_round_9750)
  have "0 \<le> 10000 * stepsFraction z now"
    using fraction_nonneg [of z now] by simp
  then have lo: "0 \<le> ?r"
    by (rule Math_round_nonneg)
  have "clamp ?r 0 10000 = ?r"
    using up lo by (simp add: clamp_def)
  then show ?thesis
    using up by (simp add: steps_fraction)
qed

lemma fallBack_fields:
  "getHours fallBackHost 1730663999000 = 14"
  "setHours0 fallBackHost 1730663999000 = 1730606400000"
  "setBack fallBackHost 1730663999000 = 3600000"
  by (simp_all add: getHours_def setHours0_def setBack_def LocalTime_def UTC_def fallBackHost_def)

lemma fallBack_fraction:
  "stepsFraction fallBackHost 1730663999000
     = 57599000 / 86400000 * (0.7 + 0.6 * (0.5 + 0.5 * (sqrt 3 / 2)))"
  unfolding stepsFraction_def fallBack_fields circ_14
  by (simp add: clamp_def)

lemma Math_round_unique:
  "real_of_int n \<le> x + 1 / 2 \<Longrightarrow> x + 1 / 2 < real_of_int n + 1 \<Longrightarrow> Math_round x = real_of_int n"
  by (simp add: Math_round_def floor_unique)

lemma steps_at_hour:
  "getHours z now = h \<Longrightarrow>
   useSimulatedSteps z now =
     clamp (Math_round (10000 * (clamp (real_of_int (now - setHours0 z now) / (24 * 3600 * 1000)) 0 1
        * (0.7 + 0.6 * (0.5 + 0.5 * sin (real_of_int (h - 6) / 24 * pi * 2)))))) 0 10000"
  by (simp only: steps_fraction stepsFraction_def)

lemma steps_16: "useSimulatedSteps (fixedZone 0) 57600000 = 7667"
proof -
  have h: "getHours (fixedZone 0) 57600000 = 16"
    by (simp add: getHours_def LocalTime_def fixedZone_def)
  show ?thesis
    unfolding steps_at_hour [OF h] circ_16
    by (simp add: clamp_def Math_round_def setHours0_def LocalTime_def UTC_def fixedZone_def)
qed

lemma steps_18: "useSimulatedSteps (fixedZone 0) 64800000 = 7500"
proof -
  have h: "getHours (fixedZone 0) 64800000 = 18"
    by (simp add: getHours_def LocalTime_def fixedZone_def)
  show ?thesis
    unfolding steps_at_hour [OF h] circ_18
    by (simp add: clamp_def Math_round_def setHours0_def LocalTime_def UTC_def fixedZone_def)
qed

lemma sameDay_midnight:
  assumes "sameDay z t1 t2"
  shows "setHours0 z t1 = setHours0 z t2"
proof -
  have "LocalTime z t1 - LocalTime z t1 mod 86400000 = 86400000 * (LocalTime z t1 div 86400000)"
    by (simp add: minus_mod_eq_mult_div)
  moreover have "LocalTime z t2 - LocalTime z t2 mod 86400000 = 86400000 * (LocalTime z t2 div 86400000)"
    by (simp add: minus_mod_eq_mult_div)
  ultimately have "LocalTime z t1 - LocalTime z t1 mod 86400000
      = LocalTime z t2 - LocalTime z t2 mod 86400000"
    using assms by (simp add: sameDay_def)
  then show ?thesis
    by (simp add: setHours0_def Let_def)
qed

lemma hours_mono_aux:
  fixes e1 e2 h1 h2 :: int
  assumes "e1 \<le> e2" "3600000 * h1 \<le> e1" "e2 < 3600000 * (h2 + 1)"
  shows "h1 \<le> h2"
proof (rule ccontr)
  assume "\<not> h1 \<le> h2"
  then have "h2 + 1 \<le> h1" by simp
  then have "3600000 * (h2 + 1) \<le> 3600000 * h1" by simp
  with assms show False by linarith
qed

text \<open>On a host whose clock is never changed the hour does not go back within a day.\<close>

lemma fixedZone_hours:
  assumes d: "sameDay (fixedZone tz) t1 t2" and le: "t1 \<le> t2"
  shows "getHours (fixedZone tz) t1 \<le> getHours (fixedZone tz) t2"
proof -
  let ?z = "fixedZone tz"
  have m: "setHours0 ?z t1 = setHours0 ?z t2"
    using d by (rule sameDay_midnight)
  have "t1 - setHours0 ?z t1 \<le> t2 - setHours0 ?z t2"
    using le by (simp add: m)
  then have "LocalTime ?z t1 mod 86400000 \<le> LocalTime ?z t2 mod 86400000"
    by (simp add: elapsed_setBack setBack_fixedZone)
  moreover have "3600000 * getHours ?z t1 \<le> LocalTime ?z t1 mod 86400000"
    using elapsed_hours [of ?z t1] by (rule conjunct1)
  moreover have "LocalTime ?z t2 mod 86400000 < 3600000 * (getHours ?z t2 + 1)"
    using elapsed_hours [of ?z t2] by (rule conjunct2)
  ultimately show ?thesis
    by (rule hours_mono_aux)
qed

lemma circadian_mono:
  fixes h1 h2 :: int
  assumes "0 \<le> h1" "h1 \<le> h2" "h2 \<le> 12"
  shows "sin (real_of_int (h1 - 6) / 24 * pi * 2) \<le> sin (real_of_int (h2 - 6) / 24 * pi * 2)"
proof (rule sin_monotone_2pi_le)
  have a: "real_of_int (h - 6) / 24 * pi * 2 = (real_of_int h - 6) * (pi / 12)" for h
    by simp
  have p: "0 \<le> pi / 12" by simp
  have "(- 6) * (pi / 12) \<le> (real_of_int h1 - 6) * (pi / 12)"
    using assms(1) p by (intro mult_right_mono) simp_all
  then show "- (pi / 2) \<le> real_of_int (h1 - 6) / 24 * pi * 2"
    unfolding a by simp
  have "(real_of_int h1 - 6) * (pi / 12) \<le> (real_of_int h2 - 6) * (pi / 12)"
    using assms(2) p by (intro mult_right_mono) simp_all
  then show "real_of_int (h1 - 6) / 24 * pi * 2 \<le> real_of_int (h2 - 6) / 24 * pi * 2"
    by (simp only: a)
  have "(real_of_int h2 - 6) * (pi / 12) \<le> 6 * (pi / 12)"
    using assms(3) p by (intro mult_right_mono) simp_all
  then show "real_of_int (h2 - 6) / 24 * pi * 2 \<le> pi / 2"
    unfolding a by simp
qed

lemma weight_mono:
  fixes s1 s2 :: real
  shows "s1 \<le> s2 \<Longrightarrow> 0.7 + 0.6 * (0.5 + 0.5 * s1) \<le> 0.7 + 0.6 * (0.5 + 0.5 * s2)"
  by simp

lemma steps_monotone:
  assumes d: "sameDay z t1 t2" and le: "t1 \<le> t2"
    and h: "getHours z t1 = getHours z t2 \<or> (getHours z t1 \<le> getHours z t2 \<and> getHours z t2 \<le> 12)"
  shows "useSimulatedSteps z t1 \<le> useSimulatedSteps z t2"
proof -
  let ?s1 = "sin (real_of_int (getHours z t1 - 6) / 24 * pi * 2)"
  let ?s2 = "sin (real_of_int (getHours z t2 - 6) / 24 * pi * 2)"
  let ?p1 = "clamp (real_of_int (t1 - setHours0 z t1) / (24 * 3600 * 1000)) 0 1"
  let ?p2 = "clamp (real_of_int (t2 - setHours0 z t2) / (24 * 3600 * 1000)) 0 1"
  have s: "?s1 \<le> ?s2"
  proof (cases "getHours z t1 = getHours z t2")
    case True
    then show ?thesis by simp
  next
    case False
    with h have "getHours z t1 \<le> getHours z t2" "getHours z t2 \<le> 12" by simp_all
    moreover have "0 \<le> getHours z t1" using hours_range [of z t1] by simp
    ultimately show ?thesis by (intro circadian_mono)
  qed
  have w1: "0 \<le> 0.7 + 0.6 * (0.5 + 0.5 * ?s1)"
    by (rule weight_nonneg) (rule sin_ge_minus_one)
  have w: "0.7 + 0.6 * (0.5 + 0.5 * ?s1) \<le> 0.7 + 0.6 * (0.5 + 0.5 * ?s2)"
    using s by (rule weight_mono)
  have m: "setHours0 z t1 = setHours0 z t2"
    using d by (rule sameDay_midnight)
  have "real_of_int (t1 - setHours0 z t1) / (24 * 3600 * 1000)
      \<le> real_of_int (t2 - setHours0 z t2) / (24 * 3600 * 1000)"
    using le by (simp add: m)
  then have p: "?p1 \<le> ?p2"
    by (rule clamp_mono)
  have p2: "0 \<le> ?p2" by (rule dayProgress_nonneg)
  have "?p1 * (0.7 + 0.6 * (0.5 + 0.5 * ?s1)) \<le> ?p2 * (0.7 + 0.6 * (0.5 + 0.5 * ?s2))"
    using p w p2 w1 by (rule mult_mono)
  then have "10000 * (?p1 * (0.7 + 0.6 * (0.5 + 0.5 * ?s1))) \<le> 10000 * (?p2 * (0.7 + 0.6 * (0.5 + 0.5 * ?s2)))"
    by simp
  then have "clamp (Math_round (10000 * (?p1 * (0.7 + 0.6 * (0.5 + 0.5 * ?s1))))) 0 10000
      \<le> clamp (Math_round (10000 * (?p2 * (0.7 + 0.6 * (0.5 + 0.5 * ?s2))))) 0 10000"
    by (intro clamp_mono Math_round_mono)
  then show "useSimulatedSteps z t1 \<le> useSimulatedSteps z t2"
    by (simp only: steps_at_hour [OF refl])
qed

lemma fixedZone_afternoon:
  "sameDay (fixedZone 0) 57600000 59400000"
  "getHours (fixedZone 0) 57600000 = 16"
  "getHours (fixedZone 0) 59400000 = 16"
  by (simp_all add: sameDay_def getHours_def LocalTime_def fixedZone_def)

lemma fallBack_morning:
  "sameDay fallBackHost 1730608200000 1730615400000"
  "getHours fallBackHost 1730608200000 = 0"
  "getHours fallBackHost 1730615400000 = 1"
  by (simp_all add: sameDay_def getHours_def LocalTime_def fallBackHost_def)

subsection \<open>The claims on the steps\<close>

text \<open>
  Claim C9 as stated fails. On the host in New York at 14:59:59 on 2024-11-03, after
  the clock was set back by an hour, almost 16 hours have passed since local midnight
  while the clock reads hour 14: the product \<open>dayProgress * (0.7 + 0.6 * circadian)\<close>
  is above 0.83, beyond the 391/480 (about 0.81) that bounds it on a day without a
  change, and the count is 8399.
\<close>

theorem C9_fraction_above_counterexample:
  "setBack fallBackHost 1730663999000 = 3600000
   \<and> getHours fallBackHost 1730663999000 = 14
   \<and> 0.83 < stepsFraction fallBackHost 1730663999000
   \<and> \<not> stepsFraction fallBackHost 1730663999000 < 391 / 480
   \<and> useSimulatedSteps fallBackHost 1730663999000 = 8399"
proof -
  let ?f = "stepsFraction fallBackHost 1730663999000"
  have f: "?f = 57599 / 86400 + 57599 / 576000 * sqrt 3"
    by (simp add: fallBack_fraction algebra_simps)
  have "57599 / 576000 * 1.732 \<le> 57599 / 576000 * sqrt 3"
    using sqrt3_bounds by (intro mult_left_mono) simp_all
  then have lo: "0.83985 \<le> ?f"
    by (simp only: f) simp
  have "57599 / 576000 * sqrt 3 \<le> 57599 / 576000 * 1.7321"
    using sqrt3_bounds by (intro mult_left_mono) simp_all
  then have hi: "?f \<le> 0.8399"
    by (simp only: f) simp
  have "Math_round (10000 * ?f) = real_of_int 8399"
    using lo hi by (intro Math_round_unique) simp_all
  then have "useSimulatedSteps fallBackHost 1730663999000 = 8399"
    by (simp add: steps_fraction clamp_def)
  then show ?thesis
    using lo by (simp add: fallBack_fields)
qed

text \<open>
  Claim C9, amended. At an instant at which the clock has not been set back since
  local midnight, the product \<open>dayProgress * (0.7 + 0.6 * circadian)\<close> is below 391/480
  (about 0.81). At an instant at which it has been set back by at most three hours,
  the product is below 39/40, hence below 1; the upper clamp is not active and the step
  count is below the goal of 10000. On a host whose clock is never changed, the bound
  391/480 and the count below 10000 hold at every instant.
\<close>

theorem C9_steps_below_goal:
  "(setBack z now \<le> 0 \<longrightarrow> stepsFraction z now < 391 / 480)
   \<and> (setBack z' now' \<le> 10800000 \<longrightarrow>
        stepsFraction z' now' < 39 / 40
        \<and> useSimulatedSteps z' now' = Math_round (10000 * stepsFraction z' now')
        \<and> useSimulatedSteps z' now' < 10000)
   \<and> stepsFraction (fixedZone tz) t < 391 / 480
   \<and> useSimulatedSteps (fixedZone tz) t = Math_round (10000 * stepsFraction (fixedZone tz) t)
   \<and> useSimulatedSteps (fixedZone tz) t < 10000"
proof (intro conjI impI)
  assume "setBack z now \<le> 0"
  then show "stepsFraction z now < 391 / 480"
    by (rule fraction_bound_plain)
next
  assume sb: "setBack z' now' \<le> 10800000"
  then show f: "stepsFraction z' now' < 39 / 40"
    by (rule fraction_bound_setBack)
  show "useSimulatedSteps z' now' = Math_round (10000 * stepsFraction z' now')"
    using steps_unclamped [OF f] by simp
  show "useSimulatedSteps z' now' < 10000"
    using steps_unclamped [OF f] by simp
next
  have sb: "setBack (fixedZone tz) t \<le> 0"
    by (simp add: setBack_fixedZone)
  then show f: "stepsFraction (fixedZone tz) t < 391 / 480"
    by (rule fraction_bound_plain)
  then have g: "stepsFraction (fixedZone tz) t < 39 / 40" by simp
  show "useSimulatedSteps (fixedZone tz) t = Math_round (10000 * stepsFraction (fixedZone tz) t)"
    using steps_unclamped [OF g] by simp
  show "useSimulatedSteps (fixedZone tz) t < 10000"
    using steps_unclamped [OF g] by simp
qed

text \<open>
  The hypotheses of C9 hold at 16:00:00 of the first day of the epoch on a host on
  UTC, and on the host in New York one hour after the clock was set back.
\<close>

theorem C9_steps_below_goal_witness:
  "setBack (fixedZone 0) 57600000 \<le> 0
   \<and> stepsFraction (fixedZone 0) 57600000 < 391 / 480
   \<and> setBack fallBackHost 1730663999000 \<le> 10800000
   \<and> stepsFraction fallBackHost 1730663999000 < 39 / 40
   \<and> useSimulatedSteps fallBackHost 1730663999000 < 10000"
  using C9_steps_below_goal [of "fixedZone 0" 57600000 fallBackHost 1730663999000 0 0]
  by (simp add: setBack_fixedZone fallBack_fields)

text \<open>
  Claim C3 as stated fails. On one day, for a host on UTC, the count is 7667 at 16:00:00
  and 7500 at 18:00:00: the weight of the hour falls in the afternoon faster than the
  day advances.
\<close>

theorem C3_steps_decrease_counterexample:
  "sameDay (fixedZone 0) 57600000 64800000 \<and> (57600000::int) \<le> 64800000
   \<and> useSimulatedSteps (fixedZone 0) 57600000 = 7667
   \<and> useSimulatedSteps (fixedZone 0) 64800000 = 7500
   \<and> \<not> (useSimulatedSteps (fixedZone 0) 57600000 \<le> useSimulatedSteps (fixedZone 0) 64800000)"
proof -
  have "sameDay (fixedZone 0) 57600000 64800000"
    by (simp add: sameDay_def LocalTime_def fixedZone_def)
  then show ?thesis
    by (simp add: steps_16 steps_18)
qed

text \<open>
  Claim C3, amended. For two instants of the same calendar day, the earlier first, the
  step count does not decrease when both lie in the same hour of the clock, or when
  the later one lies before 13:00. This holds on every host whose clock is never
  changed; on any host it holds when, in the second case, the hour the clock reads at
  the later instant is not before the hour it reads at the earlier one.
\<close>

theorem C3_steps_monotone:
  "(sameDay (fixedZone tz) t1 t2 \<and> t1 \<le> t2
      \<and> (getHours (fixedZone tz) t1 = getHours (fixedZone tz) t2 \<or> getHours (fixedZone tz) t2 \<le> 12)
    \<longrightarrow> useSimulatedSteps (fixedZone tz) t1 \<le> useSimulatedSteps (fixedZone tz) t2)
   \<and> (sameDay z u1 u2 \<and> u1 \<le> u2
      \<and> (getHours z u1 = getHours z u2 \<or> (getHours z u1 \<le> getHours z u2 \<and> getHours z u2 \<le> 12))
    \<longrightarrow> useSimulatedSteps z u1 \<le> useSimulatedSteps z u2)"
proof (intro conjI impI)
  assume a: "sameDay (fixedZone tz) t1 t2 \<and> t1 \<le> t2
      \<and> (getHours (fixedZone tz) t1 = getHours (fixedZone tz) t2 \<or> getHours (fixedZone tz) t2 \<le> 12)"
  then have d: "sameDay (fixedZone tz) t1 t2" and le: "t1 \<le> t2" by simp_all
  have "getHours (fixedZone tz) t1 \<le> getHours (fixedZone tz) t2"
    using d le by (rule fixedZone_hours)
  with a have "getHours (fixedZone tz) t1 = getHours (fixedZone tz) t2
      \<or> (getHours (fixedZone tz) t1 \<le> getHours (fixedZone tz) t2 \<and> getHours (fixedZone tz) t2 \<le> 12)"
    by blast
  with d le show "useSimulatedSteps (fixedZone tz) t1 \<le> useSimulatedSteps (fixedZone tz) t2"
    by (rule steps_monotone)
next
  assume a: "sameDay z u1 u2 \<and> u1 \<le> u2
      \<and> (getHours z u1 = getHours z u2 \<or> (getHours z u1 \<le> getHours z u2 \<and> getHours z u2 \<le> 12))"
  then show "useSimulatedSteps z u1 \<le> useSimulatedSteps z u2"
    by (intro steps_monotone) simp_all
qed

text \<open>
  The hypotheses of C3 hold at 16:00:00 and 16:30:00 of the first day of the epoch on
  a host on UTC, and at 00:30 and 01:30 (after the clock was set back) of 2024-11-03 on
  the host in New York.
\<close>

theorem C3_steps_monotone_witness:
  "sameDay (fixedZone 0) 57600000 59400000 \<and> (57600000::int) \<le> 59400000
   \<and> (getHours (fixedZone 0) 57600000 = getHours (fixedZone 0) 59400000
        \<or> getHours (fixedZone 0) 59400000 \<le> 12)
   \<and> useSimulatedSteps (fixedZone 0) 57600000 \<le> useSimulatedSteps (fixedZone 0) 59400000
   \<and> sameDay fallBackHost 1730608200000 1730615400000 \<and> (1730608200000::int) \<le> 1730615400000
   \<and> (getHours fallBackHost 1730608200000 = getHours fallBackHost 1730615400000
        \<or> (getHours fallBackHost 1730608200000 \<le> getHours fallBackHost 1730615400000
            \<and> getHours fallBackHost 1730615400000 \<le> 12))
   \<and> useSimulatedSteps fallBackHost 1730608200000 \<le> useSimulatedSteps fallBackHost 1730615400000"
  using C3_steps_monotone [of 0 57600000 59400000 fallBackHost 1730608200000 1730615400000]
  by (simp add: fixedZone_afternoon fallBack_morning)

end
